theory Spec2Isabelle
  imports Complex_Main "HOL-Library.Char_ord" "HOL-Library.List_Lexorder"
begin

section \<open>JavaScript numbers\<close>

text \<open>
  The backend is JavaScript. Its numbers are modelled as exact reals extended by the three
  special values of a double: \<open>NaN\<close> and the two infinities. A decoded payload can hold
  them: \<open>parseFloat\<close> reads \<open>NaN\<close> from text that does not begin with a number, and a
  literal beyond the range of a double (\<open>1e999\<close>) is an infinity. Binary rounding of
  doubles, overflow of a finite result, and the sign of zero are not modelled.
\<close>

datatype jsnum = NaN | NegInf | Val real | PosInf

fun isNaN :: "jsnum \<Rightarrow> bool" where
  "isNaN NaN = True"
| "isNaN NegInf = False"
| "isNaN (Val _) = False"
| "isNaN PosInf = False"

text \<open>\<open>a < b\<close>: false as soon as one side is \<open>NaN\<close>.\<close>

fun js_lt :: "jsnum \<Rightarrow> jsnum \<Rightarrow> bool" where
  "js_lt NaN _ = False"
| "js_lt NegInf NaN = False"
| "js_lt NegInf NegInf = False"
| "js_lt NegInf (Val _) = True"
| "js_lt NegInf PosInf = True"
| "js_lt (Val _) NaN = False"
| "js_lt (Val _) NegInf = False"
| "js_lt (Val a) (Val b) = (a < b)"
| "js_lt (Val _) PosInf = True"
| "js_lt PosInf _ = False"

definition js_gt :: "jsnum \<Rightarrow> jsnum \<Rightarrow> bool" where
  "js_gt a b = js_lt b a"

text \<open>\<open>Math.min\<close> and \<open>Math.max\<close>: \<open>NaN\<close> as soon as one argument is \<open>NaN\<close>.\<close>

definition js_min :: "jsnum \<Rightarrow> jsnum \<Rightarrow> jsnum" where
  "js_min a b = (if isNaN a \<or> isNaN b then NaN else if js_lt b a then b else a)"

definition js_max :: "jsnum \<Rightarrow> jsnum \<Rightarrow> jsnum" where
  "js_max a b = (if isNaN a \<or> isNaN b then NaN else if js_lt a b then b else a)"

fun js_neg :: "jsnum \<Rightarrow> jsnum" where
  "js_neg NaN = NaN"
| "js_neg NegInf = PosInf"
| "js_neg (Val a) = Val (- a)"
| "js_neg PosInf = NegInf"

fun js_add :: "jsnum \<Rightarrow> jsnum \<Rightarrow> jsnum" where
  "js_add NaN _ = NaN"
| "js_add NegInf NaN = NaN"
| "js_add NegInf NegInf = NegInf"
| "js_add NegInf (Val _) = NegInf"
| "js_add NegInf PosInf = NaN"
| "js_add (Val _) NaN = NaN"
| "js_add (Val _) NegInf = NegInf"
| "js_add (Val a) (Val b) = Val (a + b)"
| "js_add (Val _) PosInf = PosInf"
| "js_add PosInf NaN = NaN"
| "js_add PosInf NegInf = NaN"
| "js_add PosInf (Val _) = PosInf"
| "js_add PosInf PosInf = PosInf"

definition js_sub :: "jsnum \<Rightarrow> jsnum \<Rightarrow> jsnum" where
  "js_sub a b = js_add a (js_neg b)"

text \<open>The sign of an infinite product or quotient; a zero counts as positive.\<close>

definition signed_inf :: "bool \<Rightarrow> jsnum" where
  "signed_inf negative = (if negative then NegInf else PosInf)"

fun js_mul :: "jsnum \<Rightarrow> jsnum \<Rightarrow> jsnum" where
  "js_mul NaN _ = NaN"
| "js_mul NegInf NaN = NaN"
| "js_mul NegInf NegInf = PosInf"
| "js_mul NegInf (Val b) = (if b = 0 then NaN else signed_inf (0 < b))"
| "js_mul NegInf PosInf = NegInf"
| "js_mul (Val _) NaN = NaN"
| "js_mul (Val a) NegInf = (if a = 0 then NaN else signed_inf (0 < a))"
| "js_mul (Val a) (Val b) = Val (a * b)"
| "js_mul (Val a) PosInf = (if a = 0 then NaN else signed_inf (a < 0))"
| "js_mul PosInf NaN = NaN"
| "js_mul PosInf NegInf = NegInf"
| "js_mul PosInf (Val b) = (if b = 0 then NaN else signed_inf (b < 0))"
| "js_mul PosInf PosInf = PosInf"

fun js_div :: "jsnum \<Rightarrow> jsnum \<Rightarrow> jsnum" where
  "js_div NaN _ = NaN"
| "js_div NegInf NaN = NaN"
| "js_div NegInf NegInf = NaN"
| "js_div NegInf (Val b) = signed_inf (0 \<le> b)"
| "js_div NegInf PosInf = NaN"
| "js_div (Val _) NaN = NaN"
| "js_div (Val _) NegInf = Val 0"
| "js_div (Val a) (Val b) =
     (if b = 0 then (if a = 0 then NaN else signed_inf (a < 0)) else Val (a / b))"
| "js_div (Val _) PosInf = Val 0"
| "js_div PosInf NaN = NaN"
| "js_div PosInf NegInf = NaN"
| "js_div PosInf (Val b) = signed_inf (b < 0)"
| "js_div PosInf PosInf = NaN"

text \<open>\<open>Math.round\<close> rounds half up, as \<^const>\<open>round\<close> does.\<close>

fun js_round :: "jsnum \<Rightarrow> jsnum" where
  "js_round NaN = NaN"
| "js_round NegInf = NegInf"
| "js_round (Val a) = Val (of_int (round a))"
| "js_round PosInf = PosInf"

fun js_log10 :: "jsnum \<Rightarrow> jsnum" where
  "js_log10 NaN = NaN"
| "js_log10 NegInf = NaN"
| "js_log10 (Val a) = (if a < 0 then NaN else if a = 0 then NegInf else Val (log 10 a))"
| "js_log10 PosInf = PosInf"


text \<open>A number in a condition (\<open>x ? a : b\<close>, \<open>x && y\<close>, \<open>x || y\<close>, \<open>!x\<close>): \<open>0\<close> and \<open>NaN\<close> are false.\<close>

fun truthy :: "jsnum \<Rightarrow> bool" where
  "truthy NaN = False"
| "truthy NegInf = True"
| "truthy (Val a) = (a \<noteq> 0)"
| "truthy PosInf = True"

text \<open>\<open>a <= b\<close> and \<open>a >= b\<close>: false as soon as one side is \<open>NaN\<close>.\<close>

definition js_le :: "jsnum \<Rightarrow> jsnum \<Rightarrow> bool" where
  "js_le a b = (\<not> isNaN a \<and> \<not> isNaN b \<and> \<not> js_lt b a)"

definition js_ge :: "jsnum \<Rightarrow> jsnum \<Rightarrow> bool" where
  "js_ge a b = js_le b a"

text \<open>
  A numeric field of a decoded payload, or of a cache entry, is represented by the number
  the source reads from it: \<open>None\<close> for a field that is missing or \<open>null\<close>, otherwise
  \<open>Some n\<close>, where \<open>n\<close> is what \<open>parseFloat\<close> makes of the field (\<open>NaN\<close> for text that is not
  a number, an infinity for \<open>Infinity\<close> or an overflowing literal).
\<close>

fun parseFloat :: "jsnum option \<Rightarrow> jsnum" where
  "parseFloat None = NaN"
| "parseFloat (Some n) = n"

text \<open>\<open>parseFloat(x ?? 0)\<close> on a payload field, \<open>x ?? 0\<close> on a cached number.\<close>

definition or_zero :: "jsnum option \<Rightarrow> jsnum" where
  "or_zero x = (case x of None \<Rightarrow> Val 0 | Some n \<Rightarrow> n)"

text \<open>
  \<open>parseFloat(x.toFixed(d))\<close> on a finite number: the nearest multiple of \<open>10\<^sup>-\<^sup>d\<close>, a tie
  going away from zero.
\<close>

definition toFixed :: "nat \<Rightarrow> real \<Rightarrow> real" where
  "toFixed d x = sgn x * of_int \<lfloor>\<bar>x\<bar> * 10 ^ d + 1 / 2\<rfloor> / 10 ^ d"

section \<open>Quote Ingestor (aggregator.js)\<close>

subsection \<open>Helpers\<close>

definition normProb :: "jsnum option \<Rightarrow> jsnum" where
  "normProb raw =
     (let n = parseFloat raw in
      if isNaN n then Val 0
      else if js_gt n (Val 1) then js_min (js_div n (Val 100)) (Val 1)
      else js_max (Val 0) (js_min n (Val 1)))"

definition calculateUnifiedConfidence :: "jsnum \<Rightarrow> jsnum option \<Rightarrow> jsnum" where
  "calculateUnifiedConfidence depth spreadPct =
     (let depthScore =
            (if js_gt depth (Val 0) then js_min (js_mul (js_log10 depth) (Val 10)) (Val 60)
             else Val 0);
          spreadScore =
            (case spreadPct of
               Some s \<Rightarrow> js_max (Val 0) (js_sub (Val 40) (js_mul s (Val 2)))
             | None \<Rightarrow> Val 20)
      in js_round (js_min (js_max (js_add depthScore spreadScore) (Val 0)) (Val 100)))"

text \<open>
  Order-book ladders are lists of levels, best level first; a level is the pair of numbers
  \<open>getPrice\<close> and \<open>getSize\<close> read from it.
\<close>

definition computePolymarketBookDepth ::
  "(jsnum \<times> jsnum) list \<Rightarrow> (jsnum \<times> jsnum) list \<Rightarrow> jsnum \<Rightarrow> jsnum" where
  "computePolymarketBookDepth bids asks mid =
     (if \<not> truthy mid then Val 0
      else if bids = [] \<and> asks = [] then Val 0
      else
        let lowerBound = js_mul mid (Val 0.98);
            upperBound = js_mul mid (Val 1.02);
            bidDepth = foldl (\<lambda>s e. js_add s (js_mul (fst e) (snd e))) (Val 0)
                         (filter (\<lambda>e. js_ge (fst e) lowerBound) bids);
            askDepth = foldl (\<lambda>s e. js_add s (js_mul (fst e) (snd e))) (Val 0)
                         (filter (\<lambda>e. js_le (fst e) upperBound) asks)
        in js_add bidDepth askDepth)"

subsection \<open>The microstructure cache and the quote record\<close>

text \<open>
  A cache entry is a JavaScript object: the book handler writes \<open>depth\<close>, \<open>bestBid\<close>,
  \<open>bestAsk\<close>, the Kalshi ticker handler writes \<open>yesBid\<close>, \<open>yesAsk\<close>, \<open>spread\<close>, \<open>volume\<close>; a
  property that was not written reads as \<open>undefined\<close> (\<open>None\<close>).
\<close>

record cache_entry =
  ce_depth :: "jsnum option"
  ce_bestBid :: "jsnum option"
  ce_bestAsk :: "jsnum option"
  ce_yesBid :: "jsnum option"
  ce_yesAsk :: "jsnum option"
  ce_spread :: "jsnum option"
  ce_volume :: "jsnum option"

definition empty_entry :: cache_entry where
  "empty_entry = \<lparr>ce_depth = None, ce_bestBid = None, ce_bestAsk = None, ce_yesBid = None,
     ce_yesAsk = None, ce_spread = None, ce_volume = None\<rparr>"

type_synonym marketStateCache = "string \<rightharpoonup> cache_entry"

text \<open>\<open>marketStateCache.get(key) ?? {}\<close>, the key itself possibly \<open>undefined\<close>.\<close>

definition cache_get :: "marketStateCache \<Rightarrow> string option \<Rightarrow> cache_entry" where
  "cache_get cache key =
     (case key of
        None \<Rightarrow> empty_entry
      | Some k \<Rightarrow> (case cache k of None \<Rightarrow> empty_entry | Some e \<Rightarrow> e))"

text \<open>
  The normalized quote. The fields \<open>id\<close> (random), \<open>timestamp\<close> (clock) and \<open>raw_payload\<close>
  (the message itself) are left out.
\<close>

record quote =
  q_platform :: string
  q_event_id :: string
  q_proposition_name :: string
  q_price :: jsnum
  q_side :: string
  q_size :: jsnum
  q_liquidity_score :: jsnum
  q_probability_pct :: jsnum
  q_liquidity_depth_usd :: jsnum
  q_bid_ask_spread_pct :: "jsnum option"
  q_volume_24h :: "jsnum option"
  q_confidence_flag :: "string option"

definition toLowerCase :: "string \<Rightarrow> string" where
  "toLowerCase s =
     map (\<lambda>c. if CHR ''A'' \<le> c \<and> c \<le> CHR ''Z'' then char_of (of_char c + (32::nat)) else c) s"

definition first_some :: "'a option \<Rightarrow> 'a option \<Rightarrow> 'a option" where
  "first_some a b = (case a of Some x \<Rightarrow> Some x | None \<Rightarrow> b)"

text \<open>\<open>liquidity_score < 50 ? 'LOW_CONFIDENCE' : null\<close>.\<close>

definition confidence_flag_of :: "jsnum \<Rightarrow> string option" where
  "confidence_flag_of liquidity_score =
     (if js_lt liquidity_score (Val 50) then Some ''LOW_CONFIDENCE'' else None)"

subsection \<open>Polymarket\<close>

record poly_msg =
  pm_event_type :: "string option"
  pm_type :: "string option"
  pm_asset_id :: "string option"
  pm_market :: "string option"
  pm_best_bid :: "jsnum option"
  pm_best_ask :: "jsnum option"
  pm_price :: "jsnum option"
  pm_side :: "string option"
  pm_size :: "jsnum option"
  pm_question :: "string option"
  pm_market_slug :: "string option"
  pm_bids :: "(jsnum \<times> jsnum) list option"
  pm_asks :: "(jsnum \<times> jsnum) list option"

definition normalizePolymarketTrade :: "marketStateCache \<Rightarrow> poly_msg \<Rightarrow> quote" where
  "normalizePolymarketTrade cache msg =
     (let bid = or_zero (pm_best_bid msg);
          ask = or_zero (pm_best_ask msg);
          mid = (if truthy bid \<and> truthy ask then js_div (js_add bid ask) (Val 2) else Val 0);
          price = normProb (if truthy mid then Some mid else pm_price msg);
          state = cache_get cache (first_some (pm_asset_id msg) (pm_market msg));
          liquidity_depth_usd = or_zero (ce_depth state);
          cachedBid = or_zero (ce_bestBid state);
          cachedAsk = or_zero (ce_bestAsk state);
          bid_ask_spread_pct =
            (if truthy cachedBid \<and> truthy cachedAsk
             then Some (js_mul (js_div (js_sub cachedAsk cachedBid)
                                       (js_div (js_add cachedAsk cachedBid) (Val 2))) (Val 100))
             else None);
          liquidity_score = calculateUnifiedConfidence liquidity_depth_usd bid_ask_spread_pct
      in \<lparr>q_platform = ''polymarket'',
          q_event_id = (case first_some (pm_asset_id msg) (pm_market msg) of
                        Some k \<Rightarrow> k | None \<Rightarrow> ''unknown''),
          q_proposition_name =
            (case first_some (pm_question msg) (pm_market_slug msg) of
               Some q \<Rightarrow> q
             | None \<Rightarrow> ''Polymarket-'' @ take 8 (case pm_asset_id msg of Some a \<Rightarrow> a | None \<Rightarrow> [])),
          q_price = price,
          q_side = (if toLowerCase (case pm_side msg of Some s \<Rightarrow> s | None \<Rightarrow> ''BUY'') = ''buy''
                  then ''buy'' else ''sell''),
          q_size = or_zero (pm_size msg),
          q_liquidity_score = liquidity_score,
          q_probability_pct = js_mul price (Val 100),
          q_liquidity_depth_usd = liquidity_depth_usd,
          q_bid_ask_spread_pct = bid_ask_spread_pct,
          q_volume_24h = None,
          q_confidence_flag = confidence_flag_of liquidity_score\<rparr>)"

subsection \<open>Kalshi\<close>

text \<open>The \<open>msg\<close> object of a Kalshi frame (\<open>data.msg ?? data\<close>).\<close>

record kalshi_msg =
  km_market_ticker :: "string option"
  km_taker_side :: "string option"
  km_yes_price :: "jsnum option"
  km_no_price :: "jsnum option"
  km_count :: "jsnum option"
  km_yes_bid :: "jsnum option"
  km_yes_ask :: "jsnum option"
  km_volume :: "jsnum option"

text \<open>
  In \<open>state.yesBid && state.yesAsk\<close> a property that was never written is \<open>undefined\<close>, which
  is false like the \<open>0\<close> that \<^const>\<open>or_zero\<close> reads.
\<close>

definition normalizeKalshiTrade :: "marketStateCache \<Rightarrow> kalshi_msg \<Rightarrow> quote" where
  "normalizeKalshiTrade cache msg =
     (let takerSide = toLowerCase (case km_taker_side msg of Some s \<Rightarrow> s | None \<Rightarrow> ''yes'');
          rawPrice = (if takerSide = ''yes'' then km_yes_price msg else km_no_price msg);
          ticker = (case km_market_ticker msg of Some t \<Rightarrow> t | None \<Rightarrow> ''unknown'');
          state = cache_get cache (Some ticker);
          cachedMid =
            (if truthy (or_zero (ce_yesBid state)) \<and> truthy (or_zero (ce_yesAsk state))
             then js_div (js_add (or_zero (ce_yesBid state)) (or_zero (ce_yesAsk state))) (Val 2)
             else Val 0);
          bid_ask_spread_pct =
            (case ce_spread state of
               Some spread \<Rightarrow>
                 (if js_gt cachedMid (Val 0) then Some (js_mul (js_div spread cachedMid) (Val 100))
                  else None)
             | None \<Rightarrow> None);
          volume_24h = ce_volume state;
          liquidity_score = calculateUnifiedConfidence (Val 0) bid_ask_spread_pct
      in \<lparr>q_platform = ''kalshi'',
          q_event_id = ticker,
          q_proposition_name = ticker,
          q_price = normProb rawPrice,
          q_side = ''buy'',
          q_size = or_zero (km_count msg),
          q_liquidity_score = liquidity_score,
          q_probability_pct = js_mul (normProb rawPrice) (Val 100),
          q_liquidity_depth_usd = Val 0,
          q_bid_ask_spread_pct = bid_ask_spread_pct,
          q_volume_24h = volume_24h,
          q_confidence_flag = confidence_flag_of liquidity_score\<rparr>)"

definition normalizeKalshiTicker ::
  "marketStateCache \<Rightarrow> kalshi_msg \<Rightarrow> quote \<times> marketStateCache" where
  "normalizeKalshiTicker cache msg =
     (let yesBid = or_zero (km_yes_bid msg);
          yesAsk = or_zero (km_yes_ask msg);
          mid = (if truthy yesBid \<and> truthy yesAsk then js_div (js_add yesBid yesAsk) (Val 2)
                 else if truthy yesBid then yesBid else yesAsk);
          spread = js_max (js_sub yesAsk yesBid) (Val 0);
          volume = or_zero (km_volume msg);
          bid_ask_spread_pct =
            (if js_gt mid (Val 0) then Some (js_mul (js_div spread mid) (Val 100)) else None);
          ticker = (case km_market_ticker msg of Some t \<Rightarrow> t | None \<Rightarrow> ''unknown'');
          cache' = cache(ticker \<mapsto> empty_entry\<lparr>ce_yesBid := Some yesBid, ce_yesAsk := Some yesAsk,
                                                  ce_spread := Some spread, ce_volume := Some volume\<rparr>);
          liquidity_score = calculateUnifiedConfidence (Val 0) bid_ask_spread_pct
      in (\<lparr>q_platform = ''kalshi'',
           q_event_id = ticker,
           q_proposition_name = ticker,
           q_price = normProb (Some mid),
           q_side = ''buy'',
           q_size = volume,
           q_liquidity_score = liquidity_score,
           q_probability_pct = js_mul (normProb (Some mid)) (Val 100),
           q_liquidity_depth_usd = Val 0,
           q_bid_ask_spread_pct = bid_ask_spread_pct,
           q_volume_24h = Some volume,
           q_confidence_flag = confidence_flag_of liquidity_score\<rparr>, cache'))"

subsection \<open>Message handlers\<close>

text \<open>
  The two \<open>ws.on('message')\<close> handlers, on one decoded message each. \<open>inserter.enqueue\<close> is
  the emission of the quote: the state holds the cache and the quotes emitted so far.
\<close>

record ingest_state =
  is_cache :: marketStateCache
  is_emitted :: "quote list"

definition enqueue_quote :: "quote \<Rightarrow> ingest_state \<Rightarrow> ingest_state" where
  "enqueue_quote x st = st\<lparr>is_emitted := is_emitted st @ [x]\<rparr>"

definition handlePolymarketMessage :: "ingest_state \<Rightarrow> poly_msg \<Rightarrow> ingest_state" where
  "handlePolymarketMessage st msg =
     (let eventType = first_some (pm_event_type msg) (pm_type msg) in
      if eventType = Some ''trade'' \<or> eventType = Some ''last_trade_price'' \<or>
         eventType = Some ''price_change'' \<or> eventType = Some ''best_bid_ask''
      then
        (let x = normalizePolymarketTrade (is_cache st) msg in
         if js_gt (q_price x) (Val 0) then enqueue_quote x st else st)
      else if eventType = Some ''book'' \<or> eventType = Some ''book_snapshot''
      then
        (let bids = (case pm_bids msg of Some b \<Rightarrow> b | None \<Rightarrow> []);
             asks = (case pm_asks msg of Some a \<Rightarrow> a | None \<Rightarrow> []);
             bestBid = (case bids of [] \<Rightarrow> Val 0 | e # _ \<Rightarrow> fst e);
             bestAsk = (case asks of [] \<Rightarrow> Val 0 | e # _ \<Rightarrow> fst e);
             mid = (if truthy bestBid \<and> truthy bestAsk then js_div (js_add bestBid bestAsk) (Val 2)
                    else Val 0);
             depth = computePolymarketBookDepth bids asks mid;
             assetId = first_some (pm_asset_id msg) (pm_market msg)
         in case assetId of
              None \<Rightarrow> st
            | Some k \<Rightarrow>
                if k = [] then st
                else st\<lparr>is_cache := (is_cache st)(k \<mapsto>
                       empty_entry\<lparr>ce_depth := Some depth, ce_bestBid := Some bestBid,
                                     ce_bestAsk := Some bestAsk\<rparr>)\<rparr>)
      else st)"

text \<open>A Kalshi frame: its \<open>type\<close> and its \<open>msg\<close> object.\<close>

definition handleKalshiMessage :: "ingest_state \<Rightarrow> string option \<Rightarrow> kalshi_msg \<Rightarrow> ingest_state" where
  "handleKalshiMessage st msgType msg =
     (if msgType = Some ''trade'' then
        (let x = normalizeKalshiTrade (is_cache st) msg in
         if js_gt (q_size x) (Val 0) \<or> js_gt (q_price x) (Val 0) then enqueue_quote x st else st)
      else if msgType = Some ''ticker'' then
        (let (x, cache') = normalizeKalshiTicker (is_cache st) msg in
         enqueue_quote x (st\<lparr>is_cache := cache'\<rparr>))
      else st)"

datatype frame = PolymarketFrame poly_msg | KalshiFrame "string option" kalshi_msg

fun handle_frame :: "ingest_state \<Rightarrow> frame \<Rightarrow> ingest_state" where
  "handle_frame st (PolymarketFrame msg) = handlePolymarketMessage st msg"
| "handle_frame st (KalshiFrame msgType msg) = handleKalshiMessage st msgType msg"

definition ingest_init :: ingest_state where
  "ingest_init = \<lparr>is_cache = Map.empty, is_emitted = []\<rparr>"

text \<open>The ingestor on a stream of frames, the two sessions interleaved in any order.\<close>

definition ingest :: "frame list \<Rightarrow> ingest_state" where
  "ingest frames = foldl handle_frame ingest_init frames"

section \<open>Properties of the Quote Ingestor\<close>

subsection \<open>Every emitted quote comes from a normalizer\<close>

lemma handle_frame_emitted:
  assumes "\<And>cache msg. P (normalizePolymarketTrade cache msg)"
    and "\<And>cache msg. P (normalizeKalshiTrade cache msg)"
    and "\<And>cache msg. P (fst (normalizeKalshiTicker cache msg))"
    and "list_all P (is_emitted st)"
  shows "list_all P (is_emitted (handle_frame st f))"
proof (cases f)
  case (PolymarketFrame msg)
  then show ?thesis using assms(4) assms(1)[of "is_cache st" msg]
    by (auto simp: handlePolymarketMessage_def enqueue_quote_def Let_def split: option.splits)
next
  case (KalshiFrame ty msg)
  then show ?thesis using assms(4) assms(2)[of "is_cache st" msg] assms(3)[of "is_cache st" msg]
    by (auto simp: handleKalshiMessage_def enqueue_quote_def Let_def split: prod.splits)
qed

lemma foldl_emitted:
  assumes "\<And>cache msg. P (normalizePolymarketTrade cache msg)"
    and "\<And>cache msg. P (normalizeKalshiTrade cache msg)"
    and "\<And>cache msg. P (fst (normalizeKalshiTicker cache msg))"
  shows "list_all P (is_emitted st) \<Longrightarrow> list_all P (is_emitted (foldl handle_frame st fs))"
proof (induction fs arbitrary: st)
  case Nil
  then show ?case by simp
next
  case (Cons f fs)
  have "list_all P (is_emitted (handle_frame st f))"
    using assms Cons.prems by (rule handle_frame_emitted)
  then show ?case using Cons.IH by simp
qed

lemma ingest_emitted:
  assumes "\<And>cache msg. P (normalizePolymarketTrade cache msg)"
    and "\<And>cache msg. P (normalizeKalshiTrade cache msg)"
    and "\<And>cache msg. P (fst (normalizeKalshiTicker cache msg))"
  shows "list_all P (is_emitted (ingest frames))"
  unfolding ingest_def using assms by (rule foldl_emitted) (simp add: ingest_init_def)




subsection \<open>Prices\<close>

lemma normProb_Val:
  "normProb (Some (Val n)) = Val (if 1 < n then min (n / 100) 1 else max 0 (min n 1))"
  by (simp add: normProb_def js_gt_def js_min_def js_max_def Let_def min_def max_def)

lemma normProb_special:
  "normProb None = Val 0" "normProb (Some NaN) = Val 0"
  "normProb (Some PosInf) = Val 1" "normProb (Some NegInf) = Val 0"
  by (simp_all add: normProb_def js_gt_def js_min_def js_max_def signed_inf_def)

lemma normProb_range: "\<exists>p. normProb raw = Val p \<and> 0 \<le> p \<and> p \<le> 1"
proof (cases raw)
  case None
  then show ?thesis by (simp add: normProb_special)
next
  case (Some n)
  then show ?thesis by (cases n) (simp_all add: normProb_special normProb_Val)
qed

definition price_ok :: "quote \<Rightarrow> bool" where
  "price_ok q = (\<exists>p. q_price q = Val p \<and> 0 \<le> p \<and> p \<le> 1 \<and> q_probability_pct q = Val (p * 100))"

lemma price_okI:
  assumes "\<exists>raw. q_price q = normProb raw \<and> q_probability_pct q = js_mul (normProb raw) (Val 100)"
  shows "price_ok q"
proof -
  obtain raw where raw: "q_price q = normProb raw" "q_probability_pct q = js_mul (normProb raw) (Val 100)"
    using assms by blast
  obtain p where "normProb raw = Val p" "0 \<le> p" "p \<le> 1"
    using normProb_range by blast
  then show ?thesis using raw by (simp add: price_ok_def)
qed

lemma poly_price: "price_ok (normalizePolymarketTrade cache msg)"
  by (rule price_okI) (auto simp: normalizePolymarketTrade_def Let_def)

lemma ktrade_price: "price_ok (normalizeKalshiTrade cache msg)"
  by (rule price_okI) (auto simp: normalizeKalshiTrade_def Let_def)

lemma kticker_price: "price_ok (fst (normalizeKalshiTicker cache msg))"
  by (rule price_okI) (auto simp: normalizeKalshiTicker_def Let_def)

lemma ingest_price: "list_all price_ok (is_emitted (ingest frames))"
  by (rule ingest_emitted) (rule poly_price ktrade_price kticker_price)+

subsection \<open>Confidence score\<close>






















subsection \<open>Inputs and cache contents\<close>



















subsection \<open>Kalshi quotes\<close>


















subsection \<open>Finite prices\<close>













subsection \<open>Worked examples\<close>

definition example_ticker :: kalshi_msg where
  "example_ticker = \<lparr>km_market_ticker = Some ''FED-25JAN-T5.25'', km_taker_side = None,
     km_yes_price = None, km_no_price = None, km_count = None,
     km_yes_bid = Some (Val 63), km_yes_ask = Some (Val 65), km_volume = Some (Val 5000)\<rparr>"

definition example_trade :: kalshi_msg where
  "example_trade = \<lparr>km_market_ticker = Some ''FED-25JAN-T5.25'', km_taker_side = Some ''yes'',
     km_yes_price = Some (Val 65), km_no_price = Some (Val 35), km_count = Some (Val 10),
     km_yes_bid = None, km_yes_ask = None, km_volume = None\<rparr>"

definition example_frames :: "frame list" where
  "example_frames = [KalshiFrame (Some ''ticker'') example_ticker,
                     KalshiFrame (Some ''trade'') example_trade]"

lemmas example_simps =
  example_frames_def ingest_def ingest_init_def handleKalshiMessage_def handlePolymarketMessage_def
  normalizeKalshiTicker_def normalizeKalshiTrade_def normalizePolymarketTrade_def
  enqueue_quote_def example_ticker_def example_trade_def Let_def or_zero_def normProb_Val
  normProb_special toLowerCase_def cache_get_def empty_entry_def first_some_def
  js_gt_def js_max_def js_min_def js_sub_def js_le_def js_ge_def signed_inf_def
  confidence_flag_of_def

lemma example_prices: "map q_price (is_emitted (ingest example_frames)) = [Val 0.64, Val 0.65]"
  by (simp add: example_simps)

lemma example_spreads:
  "map q_bid_ask_spread_pct (is_emitted (ingest example_frames)) = [Some (Val 3.125), Some (Val 3.125)]"
  by (simp add: example_simps)

lemma example_scores: "map q_liquidity_score (is_emitted (ingest example_frames)) = [Val 34, Val 34]"
  by (simp add: example_simps calculateUnifiedConfidence_def round_def)





subsection \<open>Claims C1, C2 and C10\<close>

text \<open>
  Claim C1. Every quote the ingestor emits, on any stream of frames, has a price \<open>p\<close> with
  \<open>0 \<le> p \<le> 1\<close> and \<open>probability_pct = p \<times> 100\<close> (\<^const>\<open>price_ok\<close>). \<^const>\<open>normProb\<close> always
  returns a number in \<open>[0, 1]\<close>; a raw value above 1 is divided by 100 and then clamped, so
  1.5 becomes 0.015; the boundary values 0 and 1 are returned unchanged.
\<close>

theorem C1_price_normalized:
  "list_all price_ok (is_emitted (ingest frames)) \<and>
   (\<exists>p. normProb raw = Val p \<and> 0 \<le> p \<and> p \<le> 1) \<and>
   (1 < n \<longrightarrow> normProb (Some (Val n)) = Val (max 0 (min (n / 100) 1))) \<and>
   normProb (Some (Val 1.5)) = Val 0.015 \<and>
   normProb (Some (Val 0)) = Val 0 \<and>
   normProb (Some (Val 1)) = Val 1"
  using ingest_price [of frames] normProb_range [of raw]
  by (simp add: normProb_Val)

theorem C1_price_normalized_witness:
  "(1::real) < 250 \<and> normProb (Some (Val 250)) = Val 1 \<and>
   list_all price_ok (is_emitted (ingest example_frames))"
  using C1_price_normalized [of example_frames None 250]
  by simp







section \<open>Scenario Engine\<close>

definition MAX_DEPTH :: nat where
  "MAX_DEPTH = 2"

definition MIN_PATH_CONF :: real where
  "MIN_PATH_CONF = 0.05"

text \<open>A row of \<open>market_relationships\<close> as the engine reads it; a null column is \<open>None\<close>.\<close>

record relationship =
  r_market_key_a :: string
  r_market_key_b :: string
  r_relationship_type :: string
  r_confidence_score :: "real option"
  r_logic_justification :: "string option"
  r_vantage_insight :: "string option"
  r_impact_direction :: "string option"
  r_correlation_strength :: "string option"
  r_logical_layer :: "string option"
  r_probability_a :: "real option"
  r_probability_b :: "real option"
  r_probability_spread :: "real option"

subsection \<open>Direction propagation\<close>

definition flip :: "string \<Rightarrow> string" where
  "flip currentDir = (if currentDir = ''UP'' then ''DOWN'' else ''UP'')"

definition propagateDirection :: "string \<Rightarrow> string \<Rightarrow> string option \<Rightarrow> string" where
  "propagateDirection currentDir relationshipType impactDirection =
     (if relationshipType = ''equivalent'' \<or> relationshipType = ''implied'' \<or>
         relationshipType = ''implied_conditional''
      then currentDir
      else if relationshipType = ''mutually_exclusive'' then flip currentDir
      else if relationshipType = ''correlated''
      then (if impactDirection = Some ''Negative'' then flip currentDir else currentDir)
      else currentDir)"

subsection \<open>Bounded breadth-first traversal\<close>

record impact_meta =
  m_logic_justification :: "string option"
  m_vantage_insight :: "string option"
  m_impact_direction :: "string option"
  m_correlation_strength :: "string option"
  m_logical_layer :: "string option"
  m_probability_a :: "real option"
  m_probability_b :: "real option"
  m_probability_spread :: "real option"

record impact =
  i_market_key :: string
  i_order :: nat
  i_relationship_type :: string
  i_direction :: string
  i_confidence_score :: real
  i_edge_confidence :: real
  i_path :: "string list"
  i_meta :: impact_meta

record queue_entry =
  e_marketKey :: string
  e_direction :: string
  e_depth :: nat
  e_path :: "string list"
  e_pathConfidence :: real

text \<open>The traversal state: the \<open>visited\<close> set, the impacts found so far, the queue.\<close>

type_synonym bfs_state = "string set \<times> impact list \<times> queue_entry list"

text \<open>
  The body of the inner loop \<open>for (const rel of edges)\<close>, for one edge of the dequeued
  entry. A neighbour is marked visited before its path confidence is tested, as in the
  source.
\<close>

definition visit_edge :: "queue_entry \<Rightarrow> relationship \<Rightarrow> bfs_state \<Rightarrow> bfs_state" where
  "visit_edge e rel st =
     (case st of (visited, impacts, queue) \<Rightarrow>
      let neighbor = (if r_market_key_a rel = e_marketKey e then r_market_key_b rel
                      else r_market_key_a rel)
      in if neighbor \<in> visited then (visited, impacts, queue)
         else
           let visited' = insert neighbor visited;
               edgeConfidence = (case r_confidence_score rel of Some c \<Rightarrow> c | None \<Rightarrow> 0.5);
               newPathConf = toFixed 4 (e_pathConfidence e * edgeConfidence)
           in if newPathConf < MIN_PATH_CONF then (visited', impacts, queue)
              else
                let newDir = propagateDirection (e_direction e) (r_relationship_type rel)
                               (r_impact_direction rel);
                    newPath = e_path e @ [neighbor]
                in (visited',
                    impacts @
                      [\<lparr>i_market_key = neighbor,
                        i_order = e_depth e + 1,
                        i_relationship_type = r_relationship_type rel,
                        i_direction = newDir,
                        i_confidence_score = newPathConf,
                        i_edge_confidence = edgeConfidence,
                        i_path = newPath,
                        i_meta = \<lparr>m_logic_justification = r_logic_justification rel,
                                   m_vantage_insight = r_vantage_insight rel,
                                   m_impact_direction = r_impact_direction rel,
                                   m_correlation_strength = r_correlation_strength rel,
                                   m_logical_layer = r_logical_layer rel,
                                   m_probability_a = r_probability_a rel,
                                   m_probability_b = r_probability_b rel,
                                   m_probability_spread = r_probability_spread rel\<rparr>\<rparr>],
                    queue @
                      [\<lparr>e_marketKey = neighbor,
                        e_direction = newDir,
                        e_depth = e_depth e + 1,
                        e_path = newPath,
                        e_pathConfidence = newPathConf\<rparr>]))"

fun expand :: "queue_entry \<Rightarrow> relationship list \<Rightarrow> bfs_state \<Rightarrow> bfs_state" where
  "expand e [] st = st"
| "expand e (rel # edges) st = expand e edges (visit_edge e rel st)"

definition edges_of :: "relationship list \<Rightarrow> string \<Rightarrow> relationship list" where
  "edges_of relationships marketKey =
     filter (\<lambda>r. r_market_key_a r = marketKey \<or> r_market_key_b r = marketKey) relationships"

text \<open>The weight of a queue: what is left to do, for the termination of the outer loop.\<close>

definition entry_weight :: "nat \<Rightarrow> queue_entry \<Rightarrow> nat" where
  "entry_weight n e = Suc n ^ (MAX_DEPTH - e_depth e)"

definition queue_weight :: "nat \<Rightarrow> queue_entry list \<Rightarrow> nat" where
  "queue_weight n queue = sum_list (map (entry_weight n) queue)"

lemma queue_weight_simps:
  "queue_weight n [] = 0"
  "queue_weight n (e # q) = entry_weight n e + queue_weight n q"
  "queue_weight n (q @ q') = queue_weight n q + queue_weight n q'"
  by (simp_all add: queue_weight_def)

lemma visit_edge_weight:
  "queue_weight n (snd (snd (visit_edge e rel st))) \<le>
     queue_weight n (snd (snd st)) + Suc n ^ (MAX_DEPTH - Suc (e_depth e))"
  by (cases st) (simp add: visit_edge_def Let_def queue_weight_simps entry_weight_def)

lemma expand_weight:
  "queue_weight n (snd (snd (expand e edges st))) \<le>
     queue_weight n (snd (snd st)) + length edges * Suc n ^ (MAX_DEPTH - Suc (e_depth e))"
proof (induction edges arbitrary: st)
  case Nil
  then show ?case by simp
next
  case (Cons rel edges)
  have "queue_weight n (snd (snd (expand e (rel # edges) st)))
          \<le> queue_weight n (snd (snd (visit_edge e rel st)))
             + length edges * Suc n ^ (MAX_DEPTH - Suc (e_depth e))"
    using Cons.IH [of "visit_edge e rel st"] by simp
  also have "\<dots> \<le> (queue_weight n (snd (snd st)) + Suc n ^ (MAX_DEPTH - Suc (e_depth e)))
             + length edges * Suc n ^ (MAX_DEPTH - Suc (e_depth e))"
    using visit_edge_weight [of n e rel st] by simp
  finally show ?case by simp
qed

lemma expand_decreases:
  assumes "e_depth e < MAX_DEPTH"
  shows "queue_weight (length relationships)
           (snd (snd (expand e (edges_of relationships (e_marketKey e)) (visited, impacts, queue))))
         < queue_weight (length relationships) (e # queue)"
proof -
  let ?n = "length relationships"
  let ?k = "MAX_DEPTH - Suc (e_depth e)"
  have len: "length (edges_of relationships (e_marketKey e)) \<le> ?n"
    by (simp add: edges_of_def)
  have "queue_weight ?n (snd (snd (expand e (edges_of relationships (e_marketKey e)) (visited, impacts, queue))))
          \<le> queue_weight ?n queue + length (edges_of relationships (e_marketKey e)) * Suc ?n ^ ?k"
    using expand_weight [of ?n e "edges_of relationships (e_marketKey e)" "(visited, impacts, queue)"]
    by simp
  also have "\<dots> \<le> queue_weight ?n queue + ?n * Suc ?n ^ ?k"
    using len by simp
  also have "\<dots> < queue_weight ?n queue + Suc ?n * Suc ?n ^ ?k"
    by simp
  also have "Suc ?n * Suc ?n ^ ?k = Suc ?n ^ Suc ?k"
    by simp
  also have "Suc ?k = MAX_DEPTH - e_depth e"
    using assms by simp
  finally show ?thesis
    by (simp add: queue_weight_simps entry_weight_def)
qed

text \<open>The outer loop \<open>while (queue.length > 0)\<close>.\<close>

function bfs :: "relationship list \<Rightarrow> bfs_state \<Rightarrow> impact list" where
  "bfs relationships (visited, impacts, []) = impacts"
| "bfs relationships (visited, impacts, e # queue) =
     (if e_depth e \<ge> MAX_DEPTH then bfs relationships (visited, impacts, queue)
      else bfs relationships
             (expand e (edges_of relationships (e_marketKey e)) (visited, impacts, queue)))"
  by pat_completeness auto
termination
proof (relation "measure (\<lambda>(relationships, visited, impacts, queue).
                   queue_weight (length relationships) queue)")
  show "wf (measure (\<lambda>(relationships, visited, impacts, queue).
                   queue_weight (length relationships) queue))"
    by simp
next
  fix relationships :: "relationship list" and visited :: "string set"
    and impacts :: "impact list" and e :: queue_entry and queue :: "queue_entry list"
  show "((relationships, visited, impacts, queue), relationships, visited, impacts, e # queue)
        \<in> measure (\<lambda>(relationships, visited, impacts, queue).
                   queue_weight (length relationships) queue)"
    by (simp add: queue_weight_simps entry_weight_def)
next
  fix relationships :: "relationship list" and visited :: "string set"
    and impacts :: "impact list" and e :: queue_entry and queue :: "queue_entry list"
  assume "\<not> MAX_DEPTH \<le> e_depth e"
  then have "e_depth e < MAX_DEPTH" by simp
  from expand_decreases[OF this, of relationships visited impacts queue]
  show "((relationships, expand e (edges_of relationships (e_marketKey e)) (visited, impacts, queue)),
         relationships, visited, impacts, e # queue)
        \<in> measure (\<lambda>(relationships, visited, impacts, queue).
                   queue_weight (length relationships) queue)"
    by (cases "expand e (edges_of relationships (e_marketKey e)) (visited, impacts, queue)") simp
qed

definition traverseGraph :: "string \<Rightarrow> string \<Rightarrow> relationship list \<Rightarrow> impact list" where
  "traverseGraph targetMarket initialDir relationships =
     sort_key (\<lambda>i. - i_confidence_score i)
       (bfs relationships
          ({targetMarket}, [],
           [\<lparr>e_marketKey = targetMarket, e_direction = initialDir, e_depth = 0,
             e_path = [targetMarket], e_pathConfidence = 1\<rparr>]))"

subsection \<open>Invariant of the traversal\<close>

definition edge_confidence_of :: "relationship \<Rightarrow> real" where
  "edge_confidence_of rel = (case r_confidence_score rel of Some c \<Rightarrow> c | None \<Rightarrow> 0.5)"

text \<open>Some relationship joins \<open>u\<close> and \<open>v\<close> and has (defaulted) confidence \<open>c\<close>.\<close>

definition edge_in :: "relationship list \<Rightarrow> string \<Rightarrow> string \<Rightarrow> real \<Rightarrow> bool" where
  "edge_in relationships u v c =
     (\<exists>rel \<in> set relationships. edge_confidence_of rel = c \<and>
        ((r_market_key_a rel = u \<and> r_market_key_b rel = v) \<or>
         (r_market_key_b rel = u \<and> r_market_key_a rel = v)))"

text \<open>
  A path \<open>p\<close> reached at depth \<open>d\<close> with cumulative confidence \<open>c\<close>: the origin itself, or
  an impact already recorded.
\<close>

definition reached :: "string \<Rightarrow> impact list \<Rightarrow> string list \<Rightarrow> nat \<Rightarrow> real \<Rightarrow> bool" where
  "reached target impacts p d c =
     ((d = 0 \<and> p = [target] \<and> c = 1) \<or>
      (\<exists>j \<in> set impacts. i_order j = d \<and> i_path j = p \<and> i_confidence_score j = c))"

definition impact_ok :: "relationship list \<Rightarrow> string \<Rightarrow> impact list \<Rightarrow> impact \<Rightarrow> bool" where
  "impact_ok relationships target impacts i =
     (i_order i \<le> MAX_DEPTH \<and> MIN_PATH_CONF \<le> i_confidence_score i \<and>
      (\<exists>p d c. i_path i = p @ [i_market_key i] \<and> p \<noteq> [] \<and> i_order i = Suc d \<and>
         reached target impacts p d c \<and>
         i_confidence_score i = toFixed 4 (c * i_edge_confidence i) \<and>
         edge_in relationships (last p) (i_market_key i) (i_edge_confidence i)))"

definition entry_ok :: "string \<Rightarrow> impact list \<Rightarrow> queue_entry \<Rightarrow> bool" where
  "entry_ok target impacts e =
     (e_path e \<noteq> [] \<and> last (e_path e) = e_marketKey e \<and>
      reached target impacts (e_path e) (e_depth e) (e_pathConfidence e))"

definition bfs_inv :: "relationship list \<Rightarrow> string \<Rightarrow> bfs_state \<Rightarrow> bool" where
  "bfs_inv relationships target st =
     (case st of (visited, impacts, queue) \<Rightarrow>
        distinct (map i_market_key impacts) \<and> target \<in> visited \<and>
        i_market_key ` set impacts \<subseteq> visited \<and>
        list_all (impact_ok relationships target impacts) impacts \<and>
        list_all (entry_ok target impacts) queue)"

lemma reached_mono: "reached t I p d c \<Longrightarrow> reached t (I @ I') p d c"
  by (auto simp: reached_def)

lemma impact_ok_mono: "impact_ok rels t I i \<Longrightarrow> impact_ok rels t (I @ I') i"
  unfolding impact_ok_def by (meson reached_mono)

lemma entry_ok_mono: "entry_ok t I e \<Longrightarrow> entry_ok t (I @ I') e"
  unfolding entry_ok_def by (meson reached_mono)

lemma visit_edge_inv:
  assumes inv: "bfs_inv rels t st"
    and e: "entry_ok t (fst (snd st)) e"
    and depth: "e_depth e < MAX_DEPTH"
    and rel: "rel \<in> set rels"
    and touches: "r_market_key_a rel = e_marketKey e \<or> r_market_key_b rel = e_marketKey e"
  shows "bfs_inv rels t (visit_edge e rel st) \<and> entry_ok t (fst (snd (visit_edge e rel st))) e"
proof -
  obtain V I Q where st: "st = (V, I, Q)" by (cases st) auto
  define nb where "nb = (if r_market_key_a rel = e_marketKey e then r_market_key_b rel else r_market_key_a rel)"
  define ec where "ec = edge_confidence_of rel"
  define npc where "npc = toFixed 4 (e_pathConfidence e * ec)"
  from inv st have dist: "distinct (map i_market_key I)" and tV: "t \<in> V"
    and sub: "i_market_key ` set I \<subseteq> V"
    and imps: "list_all (impact_ok rels t I) I" and ents: "list_all (entry_ok t I) Q"
    by (auto simp: bfs_inv_def)
  from e st have eok: "entry_ok t I e" by simp
  show ?thesis
  proof (cases "nb \<in> V")
    case True
    then have "visit_edge e rel st = st"
      by (simp add: visit_edge_def st nb_def Let_def)
    then show ?thesis using inv e by simp
  next
    case notV: False
    show ?thesis
    proof (cases "npc < MIN_PATH_CONF")
      case True
      then have "visit_edge e rel st = (insert nb V, I, Q)"
        using notV by (simp add: visit_edge_def st nb_def npc_def ec_def edge_confidence_of_def Let_def)
      then show ?thesis
        using dist tV sub imps ents eok by (auto simp: bfs_inv_def)
    next
      case False
      define imp where "imp = \<lparr>i_market_key = nb,
                        i_order = e_depth e + 1,
                        i_relationship_type = r_relationship_type rel,
                        i_direction = propagateDirection (e_direction e) (r_relationship_type rel)
                               (r_impact_direction rel),
                        i_confidence_score = npc,
                        i_edge_confidence = ec,
                        i_path = e_path e @ [nb],
                        i_meta = \<lparr>m_logic_justification = r_logic_justification rel,
                                   m_vantage_insight = r_vantage_insight rel,
                                   m_impact_direction = r_impact_direction rel,
                                   m_correlation_strength = r_correlation_strength rel,
                                   m_logical_layer = r_logical_layer rel,
                                   m_probability_a = r_probability_a rel,
                                   m_probability_b = r_probability_b rel,
                                   m_probability_spread = r_probability_spread rel\<rparr>\<rparr>"
      define qe where "qe = \<lparr>e_marketKey = nb,
                        e_direction = propagateDirection (e_direction e) (r_relationship_type rel)
                               (r_impact_direction rel),
                        e_depth = e_depth e + 1,
                        e_path = e_path e @ [nb],
                        e_pathConfidence = npc\<rparr>"
      have ve: "visit_edge e rel st = (insert nb V, I @ [imp], Q @ [qe])"
        using notV False
        by (simp add: visit_edge_def st nb_def npc_def ec_def edge_confidence_of_def Let_def imp_def qe_def)
      have nbI: "nb \<notin> i_market_key ` set I" using notV sub by auto
      have d1: "distinct (map i_market_key (I @ [imp]))"
        using dist nbI by (auto simp: imp_def)
      have s1: "i_market_key ` set (I @ [imp]) \<subseteq> insert nb V"
        using sub by (auto simp: imp_def)
      have edge: "edge_in rels (last (e_path e)) nb ec"
        using rel touches eok unfolding edge_in_def entry_ok_def nb_def ec_def
        by (intro bexI[of _ rel]) auto
      have impok: "impact_ok rels t I imp"
        unfolding impact_ok_def
      proof (intro conjI exI[of _ "e_path e"] exI[of _ "e_depth e"] exI[of _ "e_pathConfidence e"])
        show "i_order imp \<le> MAX_DEPTH" using depth by (simp add: imp_def)
        show "MIN_PATH_CONF \<le> i_confidence_score imp" using False by (simp add: imp_def)
        show "i_path imp = e_path e @ [i_market_key imp]" by (simp add: imp_def)
        show "e_path e \<noteq> []" using eok by (simp add: entry_ok_def)
        show "i_order imp = Suc (e_depth e)" by (simp add: imp_def)
        show "reached t I (e_path e) (e_depth e) (e_pathConfidence e)"
          using eok by (simp add: entry_ok_def)
        show "i_confidence_score imp = toFixed 4 (e_pathConfidence e * i_edge_confidence imp)"
          by (simp add: imp_def npc_def)
        show "edge_in rels (last (e_path e)) (i_market_key imp) (i_edge_confidence imp)"
          using edge by (simp add: imp_def)
      qed
      have i1: "list_all (impact_ok rels t (I @ [imp])) (I @ [imp])"
        using imps impok by (auto simp: list_all_iff intro: impact_ok_mono)
      have qeok: "entry_ok t (I @ [imp]) qe"
        unfolding entry_ok_def reached_def
        by (auto simp: qe_def imp_def)
      have q1: "list_all (entry_ok t (I @ [imp])) (Q @ [qe])"
        using ents qeok by (auto simp: list_all_iff intro: entry_ok_mono)
      show ?thesis
        unfolding ve using d1 s1 i1 q1 tV eok
        by (auto simp: bfs_inv_def intro: entry_ok_mono)
    qed
  qed
qed

lemma expand_inv:
  assumes "bfs_inv rels t st"
    and "entry_ok t (fst (snd st)) e"
    and "e_depth e < MAX_DEPTH"
    and "set edges \<subseteq> set rels"
    and "\<forall>rel \<in> set edges. r_market_key_a rel = e_marketKey e \<or> r_market_key_b rel = e_marketKey e"
  shows "bfs_inv rels t (expand e edges st)"
  using assms
proof (induction edges arbitrary: st)
  case Nil
  then show ?case by simp
next
  case (Cons rel edges)
  have "bfs_inv rels t (visit_edge e rel st) \<and> entry_ok t (fst (snd (visit_edge e rel st))) e"
    using Cons.prems by (intro visit_edge_inv) auto
  then show ?case
    using Cons.IH [of "visit_edge e rel st"] Cons.prems by simp
qed

lemma bfs_result:
  assumes "bfs_inv rels t st"
  shows "distinct (map i_market_key (bfs rels st)) \<and>
         list_all (impact_ok rels t (bfs rels st)) (bfs rels st)"
  using assms
proof (induction rels st rule: bfs.induct)
  case (1 relationships visited impacts)
  then show ?case by (simp add: bfs_inv_def)
next
  case (2 relationships visited impacts e queue)
  from "2.prems" have eok: "entry_ok t impacts e"
    and rest: "bfs_inv relationships t (visited, impacts, queue)"
    by (auto simp: bfs_inv_def)
  show ?case
  proof (cases "MAX_DEPTH \<le> e_depth e")
    case True
    then show ?thesis using "2.IH"(1) rest by simp
  next
    case False
    have "bfs_inv relationships t
            (expand e (edges_of relationships (e_marketKey e)) (visited, impacts, queue))"
      using rest eok False by (intro expand_inv) (auto simp: edges_of_def)
    then show ?thesis using "2.IH"(2) False by simp
  qed
qed

lemma bfs_inv_init:
  "bfs_inv rels t ({t}, [], [\<lparr>e_marketKey = t, e_direction = d, e_depth = 0, e_path = [t],
                              e_pathConfidence = 1\<rparr>])"
  by (simp add: bfs_inv_def entry_ok_def reached_def)

lemma distinct_map_sort_key:
  "distinct (map f (sort_key k xs)) = distinct (map f xs)"
  by (simp add: distinct_map)

lemma impact_ok_cong: "set I = set I' \<Longrightarrow> impact_ok rels t I i = impact_ok rels t I' i"
  by (simp add: impact_ok_def reached_def)

lemma traverseGraph_result:
  "distinct (map i_market_key (traverseGraph t d rels)) \<and>
   list_all (impact_ok rels t (traverseGraph t d rels)) (traverseGraph t d rels)"
proof -
  let ?I = "bfs rels ({t}, [], [\<lparr>e_marketKey = t, e_direction = d, e_depth = 0, e_path = [t],
                              e_pathConfidence = 1\<rparr>])"
  have r: "distinct (map i_market_key ?I) \<and> list_all (impact_ok rels t ?I) ?I"
    by (rule bfs_result[OF bfs_inv_init])
  have "impact_ok rels t (sort_key (\<lambda>i. - i_confidence_score i) ?I) i = impact_ok rels t ?I i" for i
    by (rule impact_ok_cong) simp
  then show ?thesis
    unfolding traverseGraph_def using r by (simp add: distinct_map_sort_key list_all_iff)
qed

subsection \<open>Worked examples\<close>

definition example_edge :: "string \<Rightarrow> string \<Rightarrow> string \<Rightarrow> real \<Rightarrow> string option \<Rightarrow> relationship" where
  "example_edge a b ty c dir =
     \<lparr>r_market_key_a = a, r_market_key_b = b, r_relationship_type = ty,
      r_confidence_score = Some c, r_logic_justification = None, r_vantage_insight = None,
      r_impact_direction = dir, r_correlation_strength = None, r_logical_layer = None,
      r_probability_a = None, r_probability_b = None, r_probability_spread = None\<rparr>"

definition example_graph :: "relationship list" where
  "example_graph =
     [example_edge ''O'' ''X'' ''equivalent'' 0.9 None,
      example_edge ''X'' ''Y'' ''mutually_exclusive'' 0.8 None,
      example_edge ''Y'' ''Z'' ''correlated'' 0.5 (Some ''Negative'')]"

lemma example_traversal:
  "map (\<lambda>i. (i_market_key i, i_order i, i_direction i, i_confidence_score i, i_path i))
     (traverseGraph ''O'' ''UP'' example_graph) =
   [(''X'', 1, ''UP'', 0.9, [''O'', ''X'']), (''Y'', 2, ''DOWN'', 0.72, [''O'', ''X'', ''Y''])]"
  by code_simp

subsection \<open>Cumulative confidence along a path\<close>

text \<open>
  The cumulative confidence as the source computes it: the running product is rounded to
  four decimals after every hop.
\<close>

definition rounded_product :: "real list \<Rightarrow> real" where
  "rounded_product cs = foldl (\<lambda>c x. toFixed 4 (c * x)) 1 cs"

text \<open>
  The cumulative confidence as the specification words it: the plain product of the edge
  confidences along the path (the confidence of the first relationship that joins two
  consecutive markets of the path).
\<close>

fun consecutive_pairs :: "'a list \<Rightarrow> ('a \<times> 'a) list" where
  "consecutive_pairs (u # v # p) = (u, v) # consecutive_pairs (v # p)"
| "consecutive_pairs _ = []"

definition edge_between :: "relationship list \<Rightarrow> string \<Rightarrow> string \<Rightarrow> relationship option" where
  "edge_between relationships u v =
     find (\<lambda>rel. (r_market_key_a rel = u \<and> r_market_key_b rel = v) \<or>
                 (r_market_key_b rel = u \<and> r_market_key_a rel = v)) relationships"

definition product_of_edge_confidences :: "relationship list \<Rightarrow> string list \<Rightarrow> real" where
  "product_of_edge_confidences relationships p =
     prod_list (map (\<lambda>(u, v). case edge_between relationships u v of
                                 Some rel \<Rightarrow> edge_confidence_of rel | None \<Rightarrow> 1)
                    (consecutive_pairs p))"

text \<open>
  What the traversal guarantees for an impact \<open>i\<close> of its result: a first-order impact
  hangs off the origin, a second-order one off a first-order impact of the result, and
  the cumulative confidence is the rounded product of the edge confidences on the way.
\<close>

definition path_confidence_ok :: "string \<Rightarrow> impact list \<Rightarrow> impact \<Rightarrow> bool" where
  "path_confidence_ok target impacts i =
     ((i_order i = 1 \<and> i_path i = [target, i_market_key i] \<and>
       i_confidence_score i = rounded_product [i_edge_confidence i]) \<or>
      (i_order i = 2 \<and>
       (\<exists>j \<in> set impacts. i_order j = 1 \<and> i_path j = [target, i_market_key j] \<and>
          i_path i = [target, i_market_key j, i_market_key i] \<and>
          i_confidence_score i = rounded_product [i_edge_confidence j, i_edge_confidence i])))"

lemma impact_ok_order_pos: "impact_ok rels t I i \<Longrightarrow> 0 < i_order i"
  by (auto simp: impact_ok_def)

lemma impact_ok_first:
  assumes all: "list_all (impact_ok rels t I) I" and i: "impact_ok rels t I i" and o1: "i_order i = 1"
  shows "i_path i = [t, i_market_key i] \<and> i_confidence_score i = rounded_product [i_edge_confidence i]"
proof -
  from i o1 obtain p c where p: "i_path i = p @ [i_market_key i]" and r: "reached t I p 0 c"
    and c: "i_confidence_score i = toFixed 4 (c * i_edge_confidence i)"
    by (auto simp: impact_ok_def)
  have "0 < i_order j" if "j \<in> set I" for j
    using all that impact_ok_order_pos [of rels t I j] by (simp add: list_all_iff)
  with r have "p = [t] \<and> c = 1"
    unfolding reached_def by fastforce
  then show ?thesis using p c by (simp add: rounded_product_def)
qed

lemma impact_ok_path_confidence:
  assumes all: "list_all (impact_ok rels t I) I" and i: "i \<in> set I"
  shows "path_confidence_ok t I i"
proof -
  from all i have ok: "impact_ok rels t I i" by (simp add: list_all_iff)
  then obtain p d c where p: "i_path i = p @ [i_market_key i]" and o: "i_order i = Suc d"
    and r: "reached t I p d c" and c: "i_confidence_score i = toFixed 4 (c * i_edge_confidence i)"
    and le: "i_order i \<le> MAX_DEPTH"
    by (auto simp: impact_ok_def)
  show ?thesis
  proof (cases d)
    case 0
    then have "i_order i = 1" using o by simp
    from impact_ok_first [OF all ok this] this show ?thesis
      by (simp add: path_confidence_ok_def)
  next
    case (Suc d')
    with o le have d1: "d = 1" and o2: "i_order i = 2" by (auto simp: MAX_DEPTH_def)
    from r d1 obtain j where j: "j \<in> set I" "i_order j = 1" "i_path j = p" "i_confidence_score j = c"
      by (auto simp: reached_def)
    from all j(1) have "impact_ok rels t I j" by (simp add: list_all_iff)
    from impact_ok_first [OF all this j(2)]
    have "i_path j = [t, i_market_key j]" "i_confidence_score j = rounded_product [i_edge_confidence j]"
      by auto
    then show ?thesis
      unfolding path_confidence_ok_def using o2 j p c
      by (intro disjI2 conjI bexI [of _ j]) (auto simp: rounded_product_def)
  qed
qed

lemma impact_ok_edge:
  assumes "impact_ok rels t I i"
  shows "1 \<le> i_order i \<and> i_order i \<le> 2 \<and> 0.05 \<le> i_confidence_score i \<and>
         edge_in rels (last (butlast (i_path i))) (i_market_key i) (i_edge_confidence i)"
  using assms by (auto simp: impact_ok_def MAX_DEPTH_def MIN_PATH_CONF_def)

subsection \<open>Claims C5 and C6\<close>

definition weak_edge_graph :: "relationship list" where
  "weak_edge_graph = [example_edge ''O'' ''W'' ''equivalent'' 0.12346 None]"

lemma weak_edge_traversal:
  "map (\<lambda>i. (i_path i, i_confidence_score i))
     (traverseGraph ''O'' ''UP'' weak_edge_graph) = [([''O'', ''W''], 0.1235)]"
  by code_simp

lemma weak_edge_product:
  "product_of_edge_confidences weak_edge_graph [''O'', ''W''] = 0.12346"
  by code_simp

text \<open>
  Claim C5, as stated, fails: the cumulative confidence is not the product of the edge
  confidences. For the single edge \<open>O \<midarrow> W\<close> of confidence 0.12346 the impact on \<open>W\<close>
  records 0.1235.
\<close>

theorem C5_product_counterexample:
  "\<exists>i \<in> set (traverseGraph ''O'' ''UP'' weak_edge_graph).
     i_confidence_score i \<noteq> product_of_edge_confidences weak_edge_graph (i_path i)"
proof -
  from weak_edge_traversal obtain i where
    i: "traverseGraph ''O'' ''UP'' weak_edge_graph = [i]" "i_path i = [''O'', ''W'']"
       "i_confidence_score i = 0.1235"
    by auto
  then show ?thesis
    by (simp add: weak_edge_product)
qed

text \<open>
  Claim C5, amended. For every target, direction and relationship set, the result of the
  traversal names each market at most once; every impact has order 1 or 2 (never more
  than the maximum depth 2) and cumulative confidence at least 0.05; its confidence is
  the product of the edge confidences along its path rounded to four decimals after each
  hop (\<^const>\<open>path_confidence_ok\<close>), the last edge being a relationship of the set that joins
  the impact to its predecessor on the path, with confidence 0.5 when the row has none.
\<close>

theorem C5_traversal_bounded:
  "distinct (map i_market_key (traverseGraph t d rels)) \<and>
   list_all
     (\<lambda>i. 1 \<le> i_order i \<and> i_order i \<le> 2 \<and> 0.05 \<le> i_confidence_score i \<and>
          path_confidence_ok t (traverseGraph t d rels) i \<and>
          edge_in rels (last (butlast (i_path i))) (i_market_key i) (i_edge_confidence i))
     (traverseGraph t d rels)"
proof -
  let ?R = "traverseGraph t d rels"
  have dist: "distinct (map i_market_key ?R)" and all: "list_all (impact_ok rels t ?R) ?R"
    using traverseGraph_result [of t d rels] by auto
  have "1 \<le> i_order i \<and> i_order i \<le> 2 \<and> 0.05 \<le> i_confidence_score i \<and>
        path_confidence_ok t ?R i \<and>
        edge_in rels (last (butlast (i_path i))) (i_market_key i) (i_edge_confidence i)"
    if "i \<in> set ?R" for i
  proof -
    from all that have "impact_ok rels t ?R i" by (simp add: list_all_iff)
    from impact_ok_edge [OF this] impact_ok_path_confidence [OF all that]
    show ?thesis by simp
  qed
  with dist show ?thesis by (simp add: list_all_iff)
qed

theorem C5_traversal_bounded_witness:
  "map (\<lambda>i. (i_market_key i, i_order i, i_direction i, i_confidence_score i, i_path i))
     (traverseGraph ''O'' ''UP'' example_graph) =
   [(''X'', 1, ''UP'', 0.9, [''O'', ''X'']), (''Y'', 2, ''DOWN'', 0.72, [''O'', ''X'', ''Y''])] \<and>
   distinct (map i_market_key (traverseGraph ''O'' ''UP'' example_graph)) \<and>
   list_all (\<lambda>i. path_confidence_ok ''O'' (traverseGraph ''O'' ''UP'' example_graph) i)
     (traverseGraph ''O'' ''UP'' example_graph)"
  using C5_traversal_bounded [of "''O''" "''UP''" example_graph] example_traversal
  by (simp add: list_all_iff)

text \<open>
  Claim C6. \<^const>\<open>propagateDirection\<close> returns the incoming direction across an
  \<open>equivalent\<close>, \<open>implied\<close> or \<open>implied_conditional\<close> edge, the flipped direction across a
  \<open>mutually_exclusive\<close> edge, and across a \<open>correlated\<close> edge the flipped direction exactly
  when the edge's impact direction is \<open>Negative\<close>. Flipping exchanges \<open>UP\<close> and \<open>DOWN\<close>, so two
  \<open>mutually_exclusive\<close> edges in a row give a direction \<open>UP\<close> or \<open>DOWN\<close> back, and any chain of
  \<open>equivalent\<close> and \<open>implied\<close> edges leaves the direction as it was.
\<close>

theorem C6_direction_algebra:
  "propagateDirection D ''equivalent'' imp = D \<and>
   propagateDirection D ''implied'' imp = D \<and>
   propagateDirection D ''implied_conditional'' imp = D \<and>
   propagateDirection D ''mutually_exclusive'' imp = flip D \<and>
   propagateDirection D ''correlated'' imp = (if imp = Some ''Negative'' then flip D else D) \<and>
   flip ''UP'' = ''DOWN'' \<and> flip ''DOWN'' = ''UP'' \<and>
   (D = ''UP'' \<or> D = ''DOWN'' \<longrightarrow>
      propagateDirection (propagateDirection D ''mutually_exclusive'' imp)
        ''mutually_exclusive'' imp' = D) \<and>
   ((\<forall>(ty, dir) \<in> set edges. ty = ''equivalent'' \<or> ty = ''implied'' \<or> ty = ''implied_conditional'') \<longrightarrow>
      foldl (\<lambda>cur (ty, dir). propagateDirection cur ty dir) D edges = D)"
proof -
  have chain: "foldl (\<lambda>cur (ty, dir). propagateDirection cur ty dir) D edges = D"
    if "\<forall>(ty, dir) \<in> set edges. ty = ''equivalent'' \<or> ty = ''implied'' \<or> ty = ''implied_conditional''"
    using that by (induction edges) (auto simp: propagateDirection_def)
  show ?thesis
    using chain by (auto simp: propagateDirection_def flip_def)
qed

theorem C6_direction_algebra_witness:
  "propagateDirection (propagateDirection ''UP'' ''mutually_exclusive'' None)
        ''mutually_exclusive'' None = ''UP'' \<and>
   propagateDirection ''UP'' ''mutually_exclusive'' None = ''DOWN'' \<and>
   foldl (\<lambda>cur (ty, dir). propagateDirection cur ty dir) ''DOWN''
     [(''equivalent'', None), (''implied'', Some ''Negative''), (''implied_conditional'', None)] = ''DOWN''"
  using C6_direction_algebra [of "''UP''" None None "[]"]
    C6_direction_algebra [of "''DOWN''" None None
      "[(''equivalent'', None), (''implied'', Some ''Negative''), (''implied_conditional'', None)]"]
  by (simp add: propagateDirection_def flip_def)

section \<open>Relationship Classifier\<close>

definition ARBITRAGE_THRESHOLD_PCT :: real where
  "ARBITRAGE_THRESHOLD_PCT = 10"

definition DIVERGENCE_THRESHOLD_PCT :: real where
  "DIVERGENCE_THRESHOLD_PCT = 5"

definition DEMO_PROBS :: "(string \<times> real) list" where
  "DEMO_PROBS =
     [(''demo_fed_hold_v1'', 82),
      (''demo_fed_hold_v2'', 79),
      (''demo_house_dem_v1'', 34),
      (''demo_house_dem_v2'', 35),
      (''demo_wti_above_70'', 68),
      (''demo_wti_at_or_below_70'', 32),
      (''demo_unemp_above_43'', 55),
      (''demo_unemp_at_or_below_43'', 45),
      (''demo_fed_hike_march'', 12),
      (''demo_gdp_below_20'', 84),
      (''demo_cpi_above_fed_target'', 78)]"

text \<open>A catalog entry (row of \<open>market_metadata\<close>).\<close>

record market =
  mk_market_key :: string
  mk_event_name :: string
  mk_proposition_text :: "string option"
  mk_polymarket_token_id :: "string option"
  mk_kalshi_ticker :: "string option"
  mk_resolution_date :: string
  mk_settlement_source :: string

text \<open>
  The object parsed from the analyst model's answer; a property the model left out is
  \<open>undefined\<close> (\<open>None\<close>). The \<open>reasoning\<close> block is only logged and is left out.
\<close>

record analyst_answer =
  a_relationship_type :: "string option"
  a_confidence_score :: "real option"
  a_logic_justification :: "string option"
  a_impact_direction :: "string option"
  a_correlation_strength :: "string option"
  a_logical_layer :: "string option"
  a_vantage_insight :: "string option"

text \<open>The row \<open>classifyPair\<close> returns and \<open>storeRelationship\<close> upserts.\<close>

record relationship_row =
  c_market_key_a :: string
  c_market_key_b :: string
  c_relationship_type :: "string option"
  c_confidence_score :: jsnum
  c_logic_justification :: "string option"
  c_arbitrage_flag :: "string option"
  c_risk_alert :: "string option"
  c_probability_a :: "real option"
  c_probability_b :: "real option"
  c_probability_spread :: "real option"
  c_impact_direction :: string
  c_correlation_strength :: string
  c_logical_layer :: string
  c_vantage_insight :: "string option"

text \<open>A value inside a template literal: \<open>undefined\<close> prints as the word.\<close>

definition js_string :: "string option \<Rightarrow> string" where
  "js_string s = (case s of Some t \<Rightarrow> t | None \<Rightarrow> ''undefined'')"

text \<open>The em dash and the double quote of the source's messages, as bytes.\<close>

definition em_dash :: string where
  "em_dash = [CHR 0xE2, CHR 0x80, CHR 0x94]"

definition dquote :: string where
  "dquote = [CHR 0x22]"

text \<open>\<open>[a, b].sort()\<close> on two strings.\<close>

definition sort_pair :: "string \<Rightarrow> string \<Rightarrow> string \<times> string" where
  "sort_pair a b = (if b < a then (b, a) else (a, b))"

text \<open>
  The consistency check of \<open>classifyPair\<close> (arbitrage and divergence detection): from the
  two probabilities, the relationship type and the model's justification to
  \<open>arbitrage_flag\<close>, \<open>risk_alert\<close>, \<open>probability_spread\<close> and the stored justification.
  \<open>Number.prototype.toFixed\<close>, which only formats numbers inside the justification text,
  is the parameter \<open>fmt\<close> (digits, number).
\<close>

definition consistency_check ::
  "(nat \<Rightarrow> real \<Rightarrow> string) \<Rightarrow> string \<Rightarrow> string \<Rightarrow> real option \<Rightarrow> real option \<Rightarrow>
   string option \<Rightarrow> string option \<Rightarrow>
   string option \<times> string option \<times> real option \<times> string option" where
  "consistency_check fmt marketA_key marketB_key probA probB relationship_type logic_justification =
     (case (probA, probB) of
        (Some pA, Some pB) \<Rightarrow>
          if relationship_type = Some ''equivalent'' then
            let probability_spread = \<bar>pA - pB\<bar>;
                risk_alert =
                  (if probability_spread > DIVERGENCE_THRESHOLD_PCT
                   then Some ''VENUE_DIVERGENCE: Potential Arbitrage'' else None)
            in if probability_spread > ARBITRAGE_THRESHOLD_PCT then
                 let isGdpMismatch =
                       ((marketA_key = ''gdp_q1_2026'' \<and> marketB_key = ''demo_gdp_below_20'') \<or>
                        (marketB_key = ''gdp_q1_2026'' \<and> marketA_key = ''demo_gdp_below_20''));
                     gdpNote =
                       (if isGdpMismatch then
                          '' GDP Mismatch: The live '' @ dquote @ ''above 2.0%'' @ dquote @
                          '' market and the demo '' @ dquote @ ''below 2.0%'' @ dquote @
                          '' complement '' @
                          ''are both tracking the same BEA Q1 2026 GDP release. '' @
                          ''With a '' @ fmt 1 probability_spread @ ''% spread between them, '' @
                          ''this represents a '' @ fmt 0 probability_spread @
                          ''% market inefficiency '' @ em_dash @ '' '' @
                          ''a trader buying the underpriced side captures near-riskless profit.''
                        else [])
                 in (Some ''HIGH_VALUE_ARBITRAGE_OPPORTUNITY'', risk_alert,
                     Some probability_spread,
                     Some (js_string logic_justification @ '' '' @
                           ''[ARBITRAGE DETECTED: '' @ fmt 1 probability_spread @
                           ''% spread '' @ em_dash @ '' '' @
                           marketA_key @ '' at '' @ fmt 1 pA @ ''% vs '' @
                           marketB_key @ '' at '' @ fmt 1 pB @ ''%. '' @
                           ''These equivalent markets should converge; the gap is a pricing inefficiency.]'' @
                           gdpNote))
               else (None, risk_alert, Some probability_spread, logic_justification)
          else if relationship_type = Some ''mutually_exclusive'' then
            let pairSum = pA + pB;
                probability_spread = \<bar>pairSum - 100\<bar>
            in if probability_spread > ARBITRAGE_THRESHOLD_PCT then
                 (Some ''HIGH_VALUE_ARBITRAGE_OPPORTUNITY'', None, Some probability_spread,
                  Some (js_string logic_justification @ '' '' @
                        ''[ARBITRAGE DETECTED: Probabilities sum to '' @ fmt 1 pairSum @
                        ''% (should be ~100%). '' @
                        ''The '' @ fmt 1 probability_spread @
                        ''% excess is a potential arbitrage opportunity.]''))
               else (None, None, Some probability_spread, logic_justification)
          else (None, None, None, logic_justification)
      | _ \<Rightarrow> (None, None, None, logic_justification))"

text \<open>
  \<open>classifyPair\<close> after the call to the analyst model: \<open>answer\<close> is the parsed object, or
  \<open>None\<close> when the call failed or the text was not JSON (the pair is skipped).
\<close>

definition classifyPair ::
  "(nat \<Rightarrow> real \<Rightarrow> string) \<Rightarrow> market \<Rightarrow> market \<Rightarrow> real option \<Rightarrow> real option \<Rightarrow>
   analyst_answer option \<Rightarrow> relationship_row option" where
  "classifyPair fmt marketA marketB probA probB answer =
     (case answer of
        None \<Rightarrow> None
      | Some parsed \<Rightarrow>
          let (arbitrage_flag, risk_alert, probability_spread, justification) =
                consistency_check fmt (mk_market_key marketA) (mk_market_key marketB) probA probB
                  (a_relationship_type parsed) (a_logic_justification parsed);
              (keyA, keyB) = sort_pair (mk_market_key marketA) (mk_market_key marketB)
          in Some \<lparr>c_market_key_a = keyA,
                   c_market_key_b = keyB,
                   c_relationship_type = a_relationship_type parsed,
                   c_confidence_score = parseFloat (map_option Val (a_confidence_score parsed)),
                   c_logic_justification = justification,
                   c_arbitrage_flag = arbitrage_flag,
                   c_risk_alert = risk_alert,
                   c_probability_a = probA,
                   c_probability_b = probB,
                   c_probability_spread = probability_spread,
                   c_impact_direction =
                     (case a_impact_direction parsed of Some d \<Rightarrow> d | None \<Rightarrow> ''Neutral''),
                   c_correlation_strength =
                     (case a_correlation_strength parsed of Some d \<Rightarrow> d | None \<Rightarrow> ''Medium''),
                   c_logical_layer =
                     (case a_logical_layer parsed of Some d \<Rightarrow> d | None \<Rightarrow> ''Financial''),
                   c_vantage_insight = a_vantage_insight parsed\<rparr>)"

text \<open>
  The table \<open>market_relationships\<close>, keyed by its unique constraint
  \<open>(market_key_a, market_key_b)\<close>; \<open>storeRelationship\<close> upserts on that key.
\<close>

type_synonym relationship_table = "(string \<times> string) \<rightharpoonup> relationship_row"

definition storeRelationship :: "relationship_row \<Rightarrow> relationship_table \<Rightarrow> relationship_table" where
  "storeRelationship rel table = table((c_market_key_a rel, c_market_key_b rel) \<mapsto> rel)"

text \<open>All unordered pairs, in the order of the two nested loops \<open>i < j\<close>.\<close>

fun all_pairs :: "'a list \<Rightarrow> ('a \<times> 'a) list" where
  "all_pairs [] = []"
| "all_pairs (m # ms) = map (Pair m) ms @ all_pairs ms"

text \<open>
  One task of \<open>runAgent\<close>: look the two probabilities up, classify, store. The analyst
  model is the function \<open>analyst\<close> from the request (the two markets and their
  probabilities) to the parsed answer.
\<close>

type_synonym analyst = "market \<Rightarrow> market \<Rightarrow> real option \<Rightarrow> real option \<Rightarrow> analyst_answer option"

definition classify_task ::
  "(nat \<Rightarrow> real \<Rightarrow> string) \<Rightarrow> analyst \<Rightarrow> (string \<rightharpoonup> real) \<Rightarrow> market \<times> market \<Rightarrow>
   relationship_table \<Rightarrow> relationship_table" where
  "classify_task fmt analyst probMap pair table =
     (case pair of (a, b) \<Rightarrow>
        let probA = probMap (mk_market_key a);
            probB = probMap (mk_market_key b)
        in (case classifyPair fmt a b probA probB (analyst a b probA probB) of
              None \<Rightarrow> table
            | Some rel \<Rightarrow> storeRelationship rel table))"

text \<open>
  \<open>runAgent\<close> on a catalog and the live probabilities: the demo table is overridden by
  the live values, and the tasks run in the order of the pairs.
\<close>

definition runAgent ::
  "(nat \<Rightarrow> real \<Rightarrow> string) \<Rightarrow> analyst \<Rightarrow> market list \<Rightarrow> (string \<rightharpoonup> real) \<Rightarrow>
   relationship_table \<Rightarrow> relationship_table" where
  "runAgent fmt analyst markets liveProbMap table =
     (let probMap = map_of DEMO_PROBS ++ liveProbMap
      in fold (classify_task fmt analyst probMap) (all_pairs markets) table)"

subsection \<open>Post-processing tags\<close>

lemma classifyPair_fields:
  assumes "classifyPair fmt A B probA probB (Some parsed) = Some r"
  shows "(c_arbitrage_flag r, c_risk_alert r, c_probability_spread r, c_logic_justification r) =
           consistency_check fmt (mk_market_key A) (mk_market_key B) probA probB
             (a_relationship_type parsed) (a_logic_justification parsed)"
    and "(c_market_key_a r, c_market_key_b r) = sort_pair (mk_market_key A) (mk_market_key B)"
  using assms by (auto simp: classifyPair_def Let_def split: prod.splits)

lemma classifyPair_Some: "\<exists>r. classifyPair fmt A B probA probB (Some parsed) = Some r"
  by (simp add: classifyPair_def Let_def split: prod.splits)

lemma consistency_equivalent:
  "\<exists>j. consistency_check fmt ka kb (Some pA) (Some pB) (Some ''equivalent'') lj =
         (if \<bar>pA - pB\<bar> > 10 then Some ''HIGH_VALUE_ARBITRAGE_OPPORTUNITY'' else None,
          if \<bar>pA - pB\<bar> > 5 then Some ''VENUE_DIVERGENCE: Potential Arbitrage'' else None,
          Some \<bar>pA - pB\<bar>, j) \<and>
       (if \<bar>pA - pB\<bar> > 10 then \<exists>note. note \<noteq> [] \<and> j = Some (js_string lj @ note) else j = lj)"
  by (simp add: consistency_check_def Let_def ARBITRAGE_THRESHOLD_PCT_def DIVERGENCE_THRESHOLD_PCT_def)

lemma consistency_exclusive:
  "\<exists>j. consistency_check fmt ka kb (Some pA) (Some pB) (Some ''mutually_exclusive'') lj =
         (if \<bar>pA + pB - 100\<bar> > 10 then Some ''HIGH_VALUE_ARBITRAGE_OPPORTUNITY'' else None,
          None,
          Some \<bar>pA + pB - 100\<bar>, j) \<and>
       (if \<bar>pA + pB - 100\<bar> > 10 then \<exists>note. note \<noteq> [] \<and> j = Some (js_string lj @ note) else j = lj)"
  by (simp add: consistency_check_def Let_def ARBITRAGE_THRESHOLD_PCT_def DIVERGENCE_THRESHOLD_PCT_def)

lemma consistency_otherwise:
  assumes "probA = None \<or> probB = None \<or>
           (ty \<noteq> Some ''equivalent'' \<and> ty \<noteq> Some ''mutually_exclusive'')"
  shows "consistency_check fmt ka kb probA probB ty lj = (None, None, None, lj)"
  using assms by (auto simp: consistency_check_def split: option.splits)

text \<open>
  Claim C4. The row \<open>classifyPair\<close> returns for a parsed answer: with both probabilities
  present and type \<open>equivalent\<close>, \<open>probability_spread = |prob_a - prob_b|\<close>, \<open>risk_alert\<close> is
  set exactly when the spread exceeds 5, and \<open>arbitrage_flag\<close> is set, with a non-empty
  note appended to the justification, exactly when it exceeds 10; with type
  \<open>mutually_exclusive\<close>, \<open>probability_spread = |(prob_a + prob_b) - 100|\<close> and the flag and
  the note come exactly when it exceeds 10; in every other case the three derived
  fields are null and the justification is the model's.
\<close>

theorem C4_postprocessing:
  "\<exists>r. classifyPair fmt A B probA probB (Some parsed) = Some r \<and>
     (probA = Some pA \<and> probB = Some pB \<and> a_relationship_type parsed = Some ''equivalent'' \<longrightarrow>
        c_probability_spread r = Some \<bar>pA - pB\<bar> \<and>
        c_risk_alert r =
          (if \<bar>pA - pB\<bar> > 5 then Some ''VENUE_DIVERGENCE: Potential Arbitrage'' else None) \<and>
        c_arbitrage_flag r =
          (if \<bar>pA - pB\<bar> > 10 then Some ''HIGH_VALUE_ARBITRAGE_OPPORTUNITY'' else None) \<and>
        (if \<bar>pA - pB\<bar> > 10
         then \<exists>note. note \<noteq> [] \<and>
                c_logic_justification r = Some (js_string (a_logic_justification parsed) @ note)
         else c_logic_justification r = a_logic_justification parsed)) \<and>
     (probA = Some pA \<and> probB = Some pB \<and>
      a_relationship_type parsed = Some ''mutually_exclusive'' \<longrightarrow>
        c_probability_spread r = Some \<bar>(pA + pB) - 100\<bar> \<and>
        c_risk_alert r = None \<and>
        c_arbitrage_flag r =
          (if \<bar>(pA + pB) - 100\<bar> > 10 then Some ''HIGH_VALUE_ARBITRAGE_OPPORTUNITY'' else None) \<and>
        (if \<bar>(pA + pB) - 100\<bar> > 10
         then \<exists>note. note \<noteq> [] \<and>
                c_logic_justification r = Some (js_string (a_logic_justification parsed) @ note)
         else c_logic_justification r = a_logic_justification parsed)) \<and>
     (probA = None \<or> probB = None \<or>
      (a_relationship_type parsed \<noteq> Some ''equivalent'' \<and>
       a_relationship_type parsed \<noteq> Some ''mutually_exclusive'') \<longrightarrow>
        c_probability_spread r = None \<and> c_risk_alert r = None \<and> c_arbitrage_flag r = None \<and>
        c_logic_justification r = a_logic_justification parsed)"
proof -
  obtain r where r: "classifyPair fmt A B probA probB (Some parsed) = Some r"
    using classifyPair_Some by blast
  let ?cc = "consistency_check fmt (mk_market_key A) (mk_market_key B) probA probB
               (a_relationship_type parsed) (a_logic_justification parsed)"
  have fields: "(c_arbitrage_flag r, c_risk_alert r, c_probability_spread r, c_logic_justification r) = ?cc"
    by (rule classifyPair_fields(1) [OF r])
  have eq: "c_probability_spread r = Some \<bar>pA - pB\<bar> \<and>
        c_risk_alert r =
          (if \<bar>pA - pB\<bar> > 5 then Some ''VENUE_DIVERGENCE: Potential Arbitrage'' else None) \<and>
        c_arbitrage_flag r =
          (if \<bar>pA - pB\<bar> > 10 then Some ''HIGH_VALUE_ARBITRAGE_OPPORTUNITY'' else None) \<and>
        (if \<bar>pA - pB\<bar> > 10
         then \<exists>note. note \<noteq> [] \<and>
                c_logic_justification r = Some (js_string (a_logic_justification parsed) @ note)
         else c_logic_justification r = a_logic_justification parsed)"
    if "probA = Some pA" "probB = Some pB" "a_relationship_type parsed = Some ''equivalent''"
    using consistency_equivalent [of fmt "mk_market_key A" "mk_market_key B" pA pB "a_logic_justification parsed"]
      fields that
    by (auto split: if_splits)
  have ex: "c_probability_spread r = Some \<bar>(pA + pB) - 100\<bar> \<and>
        c_risk_alert r = None \<and>
        c_arbitrage_flag r =
          (if \<bar>(pA + pB) - 100\<bar> > 10 then Some ''HIGH_VALUE_ARBITRAGE_OPPORTUNITY'' else None) \<and>
        (if \<bar>(pA + pB) - 100\<bar> > 10
         then \<exists>note. note \<noteq> [] \<and>
                c_logic_justification r = Some (js_string (a_logic_justification parsed) @ note)
         else c_logic_justification r = a_logic_justification parsed)"
    if "probA = Some pA" "probB = Some pB" "a_relationship_type parsed = Some ''mutually_exclusive''"
    using consistency_exclusive [of fmt "mk_market_key A" "mk_market_key B" pA pB "a_logic_justification parsed"]
      fields that
    by (auto split: if_splits)
  have other: "c_probability_spread r = None \<and> c_risk_alert r = None \<and> c_arbitrage_flag r = None \<and>
        c_logic_justification r = a_logic_justification parsed"
    if "probA = None \<or> probB = None \<or>
      (a_relationship_type parsed \<noteq> Some ''equivalent'' \<and>
       a_relationship_type parsed \<noteq> Some ''mutually_exclusive'')"
    using consistency_otherwise [OF that, of fmt "mk_market_key A" "mk_market_key B" "a_logic_justification parsed"]
      fields
    by simp
  show ?thesis
    using r eq ex other by blast
qed

definition example_market :: "string \<Rightarrow> market" where
  "example_market k = \<lparr>mk_market_key = k, mk_event_name = k, mk_proposition_text = None,
     mk_polymarket_token_id = None, mk_kalshi_ticker = Some k,
     mk_resolution_date = ''2026-03-18'', mk_settlement_source = ''BLS''\<rparr>"

definition example_answer :: "string \<Rightarrow> analyst_answer" where
  "example_answer ty = \<lparr>a_relationship_type = Some ty, a_confidence_score = Some 0.9,
     a_logic_justification = Some ''Same release.'', a_impact_direction = Some ''Positive'',
     a_correlation_strength = Some ''High'', a_logical_layer = Some ''Direct'',
     a_vantage_insight = None\<rparr>"

theorem C4_postprocessing_witness:
  "\<exists>r. classifyPair (\<lambda>d x. ''#'') (example_market ''A'') (example_market ''B'') (Some 90) (Some 20)
          (Some (example_answer ''equivalent'')) = Some r \<and>
     c_probability_spread r = Some 70 \<and>
     c_risk_alert r = Some ''VENUE_DIVERGENCE: Potential Arbitrage'' \<and>
     c_arbitrage_flag r = Some ''HIGH_VALUE_ARBITRAGE_OPPORTUNITY'' \<and>
     (\<exists>note. note \<noteq> [] \<and> c_logic_justification r = Some (''Same release.'' @ note))"
  using C4_postprocessing [of "\<lambda>d x. ''#''" "example_market ''A''" "example_market ''B''" "Some 90" "Some 20"
          "example_answer ''equivalent''" 90 20]
  by (simp add: example_answer_def js_string_def)

subsection \<open>Canonical keys and idempotence\<close>

text \<open>Every row sits under its own key pair, and that pair is strictly ordered.\<close>

definition canonical_table :: "relationship_table \<Rightarrow> bool" where
  "canonical_table table =
     (\<forall>k r. table k = Some r \<longrightarrow>
        k = (c_market_key_a r, c_market_key_b r) \<and> c_market_key_a r < c_market_key_b r)"

lemma sort_pair_strict: "a \<noteq> b \<Longrightarrow> fst (sort_pair a b) < snd (sort_pair a b)"
  by (auto simp: sort_pair_def)

lemma sort_pair_le: "fst (sort_pair a b) \<le> snd (sort_pair a b)"
  by (auto simp: sort_pair_def)

lemma classifyPair_canonical:
  assumes "classifyPair fmt A B probA probB answer = Some r" "mk_market_key A \<noteq> mk_market_key B"
  shows "c_market_key_a r < c_market_key_b r"
proof -
  from assms(1) obtain parsed where "answer = Some parsed"
    by (cases answer) (auto simp: classifyPair_def)
  with assms(1) have "(c_market_key_a r, c_market_key_b r) = sort_pair (mk_market_key A) (mk_market_key B)"
    using classifyPair_fields(2) by blast
  then show ?thesis
    using sort_pair_strict [OF assms(2)] by (metis fst_conv snd_conv)
qed

lemma all_pairs_distinct:
  "distinct (map f ms) \<Longrightarrow> (a, b) \<in> set (all_pairs ms) \<Longrightarrow> f a \<noteq> f b"
  by (induction ms) (auto)

lemma all_pairs_subset:
  "(a, b) \<in> set (all_pairs ms) \<Longrightarrow> a \<in> set ms \<and> b \<in> set ms"
  by (induction ms) auto

lemma classify_task_canonical:
  assumes "canonical_table table" "mk_market_key (fst pair) \<noteq> mk_market_key (snd pair)"
  shows "canonical_table (classify_task fmt analyst probMap pair table)"
proof (cases pair)
  case (Pair a b)
  show ?thesis
  proof (cases "classifyPair fmt a b (probMap (mk_market_key a)) (probMap (mk_market_key b))
                  (analyst a b (probMap (mk_market_key a)) (probMap (mk_market_key b)))")
    case None
    then show ?thesis using assms(1) Pair by (simp add: classify_task_def Let_def)
  next
    case (Some rel)
    have "c_market_key_a rel < c_market_key_b rel"
      using classifyPair_canonical [OF Some] assms(2) Pair by simp
    then show ?thesis
      using assms(1) Pair Some
      by (auto simp: classify_task_def Let_def storeRelationship_def canonical_table_def)
  qed
qed

lemma fold_classify_canonical:
  assumes "canonical_table table"
    and "\<forall>pair \<in> set pairs. mk_market_key (fst pair) \<noteq> mk_market_key (snd pair)"
  shows "canonical_table (fold (classify_task fmt analyst probMap) pairs table)"
  using assms
  by (induction pairs arbitrary: table) (auto intro: classify_task_canonical)

text \<open>A task adds to the table without reading it.\<close>

lemma classify_task_add:
  "classify_task fmt analyst probMap pair table =
     table ++ classify_task fmt analyst probMap pair Map.empty"
  by (cases pair) (auto simp: classify_task_def Let_def storeRelationship_def split: option.splits)

lemma fold_classify_add:
  "fold (classify_task fmt analyst probMap) pairs table =
     table ++ fold (classify_task fmt analyst probMap) pairs Map.empty"
proof (induction pairs arbitrary: table)
  case Nil
  then show ?case by simp
next
  case (Cons pair pairs)
  let ?t = "classify_task fmt analyst probMap pair"
  let ?f = "fold (classify_task fmt analyst probMap) pairs"
  have "fold (classify_task fmt analyst probMap) (pair # pairs) table = ?f (?t table)" by simp
  also have "\<dots> = ?t table ++ ?f Map.empty" by (rule Cons.IH)
  also have "\<dots> = (table ++ ?t Map.empty) ++ ?f Map.empty"
    using classify_task_add [of fmt analyst probMap pair table] by simp
  also have "\<dots> = table ++ (?t Map.empty ++ ?f Map.empty)" by simp
  also have "?t Map.empty ++ ?f Map.empty = ?f (?t Map.empty)" by (rule Cons.IH [symmetric])
  finally show ?case by simp
qed

lemma runAgent_add:
  "runAgent fmt analyst markets live table = table ++ runAgent fmt analyst markets live Map.empty"
  unfolding runAgent_def Let_def by (rule fold_classify_add)

lemma runAgent_idempotent:
  "runAgent fmt analyst markets live (runAgent fmt analyst markets live table) =
     runAgent fmt analyst markets live table"
proof -
  let ?U = "runAgent fmt analyst markets live Map.empty"
  have "runAgent fmt analyst markets live (runAgent fmt analyst markets live table)
          = (table ++ ?U) ++ ?U"
    using runAgent_add [of fmt analyst markets live "runAgent fmt analyst markets live table"]
      runAgent_add [of fmt analyst markets live table] by simp
  also have "\<dots> = table ++ ?U"
    by (rule ext) (simp add: map_add_def split: option.splits)
  finally show ?thesis using runAgent_add [of fmt analyst markets live table] by simp
qed

lemma runAgent_canonical:
  assumes "distinct (map mk_market_key markets)" "canonical_table table"
  shows "canonical_table (runAgent fmt analyst markets live table)"
  unfolding runAgent_def Let_def
proof (rule fold_classify_canonical [OF assms(2)])
  show "\<forall>pair\<in>set (all_pairs markets). mk_market_key (fst pair) \<noteq> mk_market_key (snd pair)"
    using all_pairs_distinct [OF assms(1)] by auto
qed

lemma canonical_no_mirror:
  assumes "canonical_table table" "(x, y) \<in> dom table"
  shows "(y, x) \<notin> dom table"
proof
  assume "(y, x) \<in> dom table"
  with assms have "x < y" "y < x"
    by (auto simp: canonical_table_def dom_def)
  then show False by simp
qed

text \<open>
  Claim C8. On a catalog whose market keys are distinct (they are the primary key of the
  catalog table), a run of the classifier keeps a table canonical: every row has
  \<open>market_key_a < market_key_b\<close> in the lexicographic order of strings and sits under
  that key pair, so no unordered pair has two rows. Running the classifier a second
  time on the same catalog, with the same probabilities and the same answers of the
  analyst model, leaves the table as the first run left it.
\<close>

theorem C8_canonical_idempotent:
  assumes "distinct (map mk_market_key markets)" and "canonical_table table"
  shows "canonical_table (runAgent fmt analyst markets live table) \<and>
         (\<forall>x y. (x, y) \<in> dom (runAgent fmt analyst markets live table) \<longrightarrow>
                (y, x) \<notin> dom (runAgent fmt analyst markets live table)) \<and>
         runAgent fmt analyst markets live (runAgent fmt analyst markets live table) =
           runAgent fmt analyst markets live table"
  using runAgent_canonical [OF assms] canonical_no_mirror runAgent_idempotent
  by blast

definition example_catalog :: "market list" where
  "example_catalog = [example_market ''fed'', example_market ''cpi'', example_market ''gdp'']"

definition example_analyst :: analyst where
  "example_analyst a b probA probB =
     (if mk_market_key a = ''fed'' \<and> mk_market_key b = ''gdp'' then None
      else Some (example_answer ''correlated''))"

lemma example_run:
  "map (\<lambda>k. map_option (\<lambda>r. (c_market_key_a r, c_market_key_b r))
              (runAgent (\<lambda>d x. ''#'') example_analyst example_catalog Map.empty Map.empty k))
     [(''cpi'', ''fed''), (''fed'', ''cpi''), (''fed'', ''gdp''), (''gdp'', ''fed''),
      (''cpi'', ''gdp''), (''gdp'', ''cpi'')] =
   [Some (''cpi'', ''fed''), None, None, None, Some (''cpi'', ''gdp''), None]"
  by code_simp

theorem C8_canonical_idempotent_witness:
  "distinct (map mk_market_key example_catalog) \<and> canonical_table Map.empty \<and>
   canonical_table (runAgent (\<lambda>d x. ''#'') example_analyst example_catalog Map.empty Map.empty) \<and>
   runAgent (\<lambda>d x. ''#'') example_analyst example_catalog Map.empty Map.empty (''cpi'', ''fed'') \<noteq> None \<and>
   runAgent (\<lambda>d x. ''#'') example_analyst example_catalog Map.empty Map.empty (''fed'', ''cpi'') = None \<and>
   runAgent (\<lambda>d x. ''#'') example_analyst example_catalog Map.empty
     (runAgent (\<lambda>d x. ''#'') example_analyst example_catalog Map.empty Map.empty) =
     runAgent (\<lambda>d x. ''#'') example_analyst example_catalog Map.empty Map.empty"
proof -
  have d: "distinct (map mk_market_key example_catalog)"
    by (simp add: example_catalog_def example_market_def)
  have c: "canonical_table Map.empty"
    by (simp add: canonical_table_def)
  show ?thesis
    using C8_canonical_idempotent [OF d c, of "\<lambda>d x. ''#''" example_analyst Map.empty] d c example_run
    by auto
qed

section \<open>Arbitrage Scanner\<close>

text \<open>
  The repository holds two copies of \<open>arbitrage_hunter.js\<close>. The one with the demo
  fallback (\<open>resolveSignal\<close>) comes first; \<open>backend/arbitrage_hunter.js\<close>, which has no demo
  table, follows. The two share everything but the body of the loop over the pairs. The
  demo table is the classifier's \<^const>\<open>DEMO_PROBS\<close>, value for value.
\<close>

definition SPREAD_THRESHOLD :: real where
  "SPREAD_THRESHOLD = 3.0"

definition LIQUIDITY_THRESHOLD :: real where
  "LIQUIDITY_THRESHOLD = 500"

definition DEMO_LIQUIDITY_USD :: real where
  "DEMO_LIQUIDITY_USD = 1000"

text \<open>
  The three reads of a cycle. The store is outside the program: a read is given by what
  the store answers to the parameters the query sends (the relationship type; nothing;
  the set of identifiers), \<open>None\<close> for an error. The rows of \<open>market_signals\<close> come in the
  order the query asks for, newest first.
\<close>

record signal_row =
  sg_event_id :: string
  sg_probability_pct :: "real option"
  sg_liquidity_depth_usd :: "real option"

record live_signal =
  ls_probability_pct :: "real option"
  ls_liquidity_depth_usd :: real

definition fetchEquivalentPairs ::
  "(string \<Rightarrow> (string \<times> string) list option) \<Rightarrow> (string \<times> string) list" where
  "fetchEquivalentPairs relationships_query =
     (case relationships_query ''equivalent'' of None \<Rightarrow> [] | Some rows \<Rightarrow> rows)"

definition fetchMetadataMap :: "market list option \<Rightarrow> (string \<rightharpoonup> string)" where
  "fetchMetadataMap query =
     (case query of
        None \<Rightarrow> Map.empty
      | Some rows \<Rightarrow>
          fold (\<lambda>row m.
                  case first_some (mk_polymarket_token_id row) (mk_kalshi_ticker row) of
                    None \<Rightarrow> m
                  | Some eventId \<Rightarrow> if eventId \<noteq> [] then m(mk_market_key row \<mapsto> eventId) else m)
               rows Map.empty)"

definition fetchLatestSignals ::
  "(string set \<Rightarrow> signal_row list option) \<Rightarrow> string set \<Rightarrow> (string \<rightharpoonup> live_signal)" where
  "fetchLatestSignals query eventIds =
     (if eventIds = {} then Map.empty
      else case query eventIds of
             None \<Rightarrow> Map.empty
           | Some rows \<Rightarrow>
               fold (\<lambda>row latest.
                       if latest (sg_event_id row) = None
                       then latest(sg_event_id row \<mapsto>
                              \<lparr>ls_probability_pct = sg_probability_pct row,
                               ls_liquidity_depth_usd =
                                 (case sg_liquidity_depth_usd row of None \<Rightarrow> 0 | Some d \<Rightarrow> d)\<rparr>)
                       else latest)
                    rows Map.empty)"

record resolved_signal =
  rs_probability_pct :: real
  rs_liquidity_depth_usd :: real
  rs_isDemo :: bool

definition resolveSignal ::
  "string \<Rightarrow> (string \<rightharpoonup> string) \<Rightarrow> (string \<rightharpoonup> live_signal) \<Rightarrow> resolved_signal option" where
  "resolveSignal marketKey metaMap signalMap =
     (let live = (case metaMap marketKey of
                    None \<Rightarrow> None
                  | Some eventId \<Rightarrow> if eventId \<noteq> [] then signalMap eventId else None);
          demo = (case map_of DEMO_PROBS marketKey of
                    Some p \<Rightarrow> Some \<lparr>rs_probability_pct = p,
                                     rs_liquidity_depth_usd = DEMO_LIQUIDITY_USD,
                                     rs_isDemo = True\<rparr>
                  | None \<Rightarrow> None)
      in case live of
           None \<Rightarrow> demo
         | Some l \<Rightarrow>
             (case ls_probability_pct l of
                None \<Rightarrow> demo
              | Some p \<Rightarrow> Some \<lparr>rs_probability_pct = p,
                                 rs_liquidity_depth_usd = ls_liquidity_depth_usd l,
                                 rs_isDemo = False\<rparr>))"

text \<open>The row \<open>insertAlert\<close> sends to \<open>arbitrage_alerts\<close> (its timestamp is left out).\<close>

record alert =
  al_market_pair :: string
  al_spread :: real
  al_potential_profit_pct :: real
  al_status :: string

definition pair_arrow :: string where
  "pair_arrow = [CHR 0xE2, CHR 0x86, CHR 0x94]"

definition insertAlert :: "string \<Rightarrow> real \<Rightarrow> real \<Rightarrow> string \<Rightarrow> alert" where
  "insertAlert marketPair spread potentialProfitPct status =
     \<lparr>al_market_pair = marketPair, al_spread = toFixed 3 spread,
      al_potential_profit_pct = toFixed 3 potentialProfitPct, al_status = status\<rparr>"

text \<open>
  The body of the loop over the pairs; the state is \<open>highestSpread\<close> and the alerts sent so
  far.
\<close>

definition scan_pair ::
  "(string \<rightharpoonup> string) \<Rightarrow> (string \<rightharpoonup> live_signal) \<Rightarrow> string \<times> string \<Rightarrow>
   real \<times> alert list \<Rightarrow> real \<times> alert list" where
  "scan_pair metaMap signalMap pair st =
     (case (pair, st) of ((market_key_a, market_key_b), (highestSpread, alerts)) \<Rightarrow>
       (case (resolveSignal market_key_a metaMap signalMap,
              resolveSignal market_key_b metaMap signalMap) of
          (Some sigA, Some sigB) \<Rightarrow>
            let spread = \<bar>rs_probability_pct sigA - rs_probability_pct sigB\<bar>;
                liquidityA = rs_liquidity_depth_usd sigA;
                liquidityB = rs_liquidity_depth_usd sigB;
                isDemo = (rs_isDemo sigA \<or> rs_isDemo sigB);
                highestSpread' = (if spread > highestSpread then spread else highestSpread)
            in if spread > SPREAD_THRESHOLD \<and> liquidityA > LIQUIDITY_THRESHOLD \<and>
                  liquidityB > LIQUIDITY_THRESHOLD
               then
                 let marketPair = market_key_a @ '' '' @ pair_arrow @ '' '' @ market_key_b;
                     potentialProfit = spread;
                     alertStatus = (if isDemo then ''SIMULATED_EXECUTION'' else ''ALERT'')
                 in (highestSpread', alerts @ [insertAlert marketPair spread potentialProfit alertStatus])
               else (highestSpread', alerts)
        | _ \<Rightarrow> (highestSpread, alerts)))"

text \<open>The set \<open>neededIds\<close>: the identifiers a cycle asks the quote table for.\<close>

definition add_id :: "string option \<Rightarrow> string set \<Rightarrow> string set" where
  "add_id x ids = (case x of None \<Rightarrow> ids | Some i \<Rightarrow> if i = [] then ids else insert i ids)"

definition neededIds :: "(string \<rightharpoonup> string) \<Rightarrow> (string \<times> string) list \<Rightarrow> string set" where
  "neededIds metaMap pairs =
     fold (\<lambda>(market_key_a, market_key_b) ids.
             add_id (metaMap market_key_b) (add_id (metaMap market_key_a) ids)) pairs {}"

definition runScan ::
  "(string \<Rightarrow> (string \<times> string) list option) \<Rightarrow> market list option \<Rightarrow>
   (string set \<Rightarrow> signal_row list option) \<Rightarrow> real \<times> alert list" where
  "runScan relationships_query metadata_query signals_query =
     (let pairs = fetchEquivalentPairs relationships_query
      in if pairs = [] then (0, [])
         else
           let metaMap = fetchMetadataMap metadata_query;
               signalMap = fetchLatestSignals signals_query (neededIds metaMap pairs)
           in fold (scan_pair metaMap signalMap) pairs (0, []))"

subsection \<open>The scanner without the demo table (\<open>backend/arbitrage_hunter.js\<close>)\<close>

text \<open>
  The loop body of \<open>backend/arbitrage_hunter.js\<close>: a side is its live signal or nothing, a
  pair with a missing side or a missing price is skipped, and every alert has status
  \<open>ALERT\<close>.
\<close>

definition scan_pair_live_only ::
  "(string \<rightharpoonup> string) \<Rightarrow> (string \<rightharpoonup> live_signal) \<Rightarrow> string \<times> string \<Rightarrow>
   real \<times> alert list \<Rightarrow> real \<times> alert list" where
  "scan_pair_live_only metaMap signalMap pair st =
     (case (pair, st) of ((market_key_a, market_key_b), (highestSpread, alerts)) \<Rightarrow>
        let sigA = (case metaMap market_key_a of
                      None \<Rightarrow> None
                    | Some idA \<Rightarrow> if idA \<noteq> [] then signalMap idA else None);
            sigB = (case metaMap market_key_b of
                      None \<Rightarrow> None
                    | Some idB \<Rightarrow> if idB \<noteq> [] then signalMap idB else None)
        in (case (sigA, sigB) of
             (Some a, Some b) \<Rightarrow>
               (case (ls_probability_pct a, ls_probability_pct b) of
                  (Some pA, Some pB) \<Rightarrow>
                    let spread = \<bar>pA - pB\<bar>;
                        liquidityA = ls_liquidity_depth_usd a;
                        liquidityB = ls_liquidity_depth_usd b;
                        highestSpread' = (if spread > highestSpread then spread else highestSpread)
                    in if spread > SPREAD_THRESHOLD \<and> liquidityA > LIQUIDITY_THRESHOLD \<and>
                          liquidityB > LIQUIDITY_THRESHOLD
                       then
                         let marketPair = market_key_a @ '' '' @ pair_arrow @ '' '' @ market_key_b;
                             potentialProfit = spread
                         in (highestSpread',
                             alerts @ [insertAlert marketPair spread potentialProfit ''ALERT''])
                       else (highestSpread', alerts)
                | _ \<Rightarrow> (highestSpread, alerts))
           | _ \<Rightarrow> (highestSpread, alerts)))"

definition runScan_live_only ::
  "(string \<Rightarrow> (string \<times> string) list option) \<Rightarrow> market list option \<Rightarrow>
   (string set \<Rightarrow> signal_row list option) \<Rightarrow> real \<times> alert list" where
  "runScan_live_only relationships_query metadata_query signals_query =
     (let pairs = fetchEquivalentPairs relationships_query
      in if pairs = [] then (0, [])
         else
           let metaMap = fetchMetadataMap metadata_query;
               signalMap = fetchLatestSignals signals_query (neededIds metaMap pairs)
           in fold (scan_pair_live_only metaMap signalMap) pairs (0, []))"

subsection \<open>What a cycle is to emit\<close>










subsection \<open>The reads\<close>












subsection \<open>One pair\<close>





subsection \<open>A cycle\<close>









subsection \<open>Worked example\<close>

definition example_metadata :: "market list" where
  "example_metadata = [example_market ''A'', example_market ''B'', example_market ''gdp_q1_2026'']"

definition example_rows :: "signal_row list" where
  "example_rows =
     [\<lparr>sg_event_id = ''A'', sg_probability_pct = Some 82, sg_liquidity_depth_usd = Some 1000\<rparr>,
      \<lparr>sg_event_id = ''B'', sg_probability_pct = Some 76, sg_liquidity_depth_usd = Some 800\<rparr>,
      \<lparr>sg_event_id = ''A'', sg_probability_pct = Some 50, sg_liquidity_depth_usd = Some 1000\<rparr>,
      \<lparr>sg_event_id = ''gdp_q1_2026'', sg_probability_pct = Some 15,
        sg_liquidity_depth_usd = Some 501\<rparr>]"

text \<open>The quote table answers with its rows for the identifiers asked.\<close>

definition example_signals :: "string set \<Rightarrow> signal_row list option" where
  "example_signals ids = Some (filter (\<lambda>r. sg_event_id r \<in> ids) example_rows)"

definition example_pairs :: "(string \<times> string) list" where
  "example_pairs =
     [(''A'', ''B''), (''demo_fed_hold_v1'', ''demo_fed_hold_v2''),
      (''demo_gdp_below_20'', ''gdp_q1_2026''), (''A'', ''unknown_market'')]"

text \<open>The relationship table answers with its pairs of the type asked.\<close>

definition example_relationships :: "string \<Rightarrow> (string \<times> string) list option" where
  "example_relationships ty = Some (if ty = ''equivalent'' then example_pairs else [])"


lemma example_scan:
  "map (\<lambda>al. (al_market_pair al, al_spread al, al_potential_profit_pct al, al_status al))
     (snd (runScan example_relationships (Some example_metadata) example_signals)) =
   [(''A '' @ pair_arrow @ '' B'', 6, 6, ''ALERT''),
    (''demo_gdp_below_20 '' @ pair_arrow @ '' gdp_q1_2026'', 69, 69, ''SIMULATED_EXECUTION'')]"
  by code_simp

lemma example_scan_live_only:
  "map (\<lambda>al. (al_market_pair al, al_spread al, al_potential_profit_pct al, al_status al))
     (snd (runScan_live_only example_relationships (Some example_metadata) example_signals)) =
   [(''A '' @ pair_arrow @ '' B'', 6, 6, ''ALERT'')]"
  by code_simp


subsection \<open>Claim C3\<close>




section \<open>Batch Writer (supabaseClient.js)\<close>

text \<open>
  \<open>flush\<close> is asynchronous: it drains the queue and starts the insert at once, and handles
  the outcome when the insert settles, after any number of further \<open>enqueue\<close> and \<open>flush\<close>
  calls. The state therefore holds, next to the queue and the counters, the batches of
  the inserts in flight.
\<close>

record 'a inserter =
  bi_batchSize :: nat
  bi_queue :: "'a list"
  bi_totalInserted :: nat
  bi_totalErrors :: nat
  bi_inflight :: "'a list list"

definition new_inserter :: "nat \<Rightarrow> 'a inserter" where
  "new_inserter batchSize =
     \<lparr>bi_batchSize = batchSize, bi_queue = [], bi_totalInserted = 0, bi_totalErrors = 0,
      bi_inflight = []\<rparr>"

text \<open>The synchronous part of \<open>flush\<close>, up to the \<open>await\<close>.\<close>

definition flush_start :: "'a inserter \<Rightarrow> 'a inserter" where
  "flush_start s =
     (if bi_queue s = [] then s
      else s\<lparr>bi_queue := [], bi_inflight := bi_inflight s @ [bi_queue s]\<rparr>)"

text \<open>
  How an insert settles: without error, with the store's \<open>error\<close>, or by throwing (the
  \<open>catch\<close> branch).
\<close>

datatype outcome = Inserted | InsertError | Thrown

text \<open>The rest of \<open>flush\<close>, for the batch of one settled insert.\<close>

definition flush_settle :: "'a list \<Rightarrow> outcome \<Rightarrow> 'a inserter \<Rightarrow> 'a inserter" where
  "flush_settle batch out s =
     (case out of
        Inserted \<Rightarrow> s\<lparr>bi_totalInserted := bi_totalInserted s + length batch\<rparr>
      | InsertError \<Rightarrow>
          (let s' = s\<lparr>bi_totalErrors := bi_totalErrors s + length batch\<rparr>
           in if length (bi_queue s') < bi_batchSize s' * 10
              then s'\<lparr>bi_queue := batch @ bi_queue s'\<rparr>
              else s')
      | Thrown \<Rightarrow> s\<lparr>bi_totalErrors := bi_totalErrors s + length batch\<rparr>)"

definition enqueue :: "'a \<Rightarrow> 'a inserter \<Rightarrow> 'a inserter" where
  "enqueue record s =
     (let s' = s\<lparr>bi_queue := bi_queue s @ [record]\<rparr>
      in if length (bi_queue s') \<ge> bi_batchSize s' then flush_start s' else s')"

text \<open>
  What can happen to an inserter: a record is enqueued, the timer (or the shutdown)
  calls \<open>flush\<close>, or the \<open>k\<close>-th insert in flight settles.
\<close>

datatype 'a writer_event = Enqueue 'a | Flush | Settle nat outcome

fun writer_step :: "'a inserter \<Rightarrow> 'a writer_event \<Rightarrow> 'a inserter" where
  "writer_step s (Enqueue record) = enqueue record s"
| "writer_step s Flush = flush_start s"
| "writer_step s (Settle k out) =
     (if k < length (bi_inflight s)
      then flush_settle (bi_inflight s ! k) out
             (s\<lparr>bi_inflight := take k (bi_inflight s) @ drop (Suc k) (bi_inflight s)\<rparr>)
      else s)"

definition writer_run :: "'a inserter \<Rightarrow> 'a writer_event list \<Rightarrow> 'a inserter" where
  "writer_run s events = foldl writer_step s events"

subsection \<open>Persistent failure\<close>

text \<open>
  One record arrives and the flush it may trigger fails before the next record arrives.
\<close>

definition failing_round :: "'a \<Rightarrow> 'a writer_event list" where
  "failing_round record = [Enqueue record, Settle 0 InsertError]"

lemma failing_round_step:
  assumes "0 < bi_batchSize s" "bi_inflight s = []"
  shows "bi_queue (writer_run s (failing_round x)) = bi_queue s @ [x] \<and>
         bi_inflight (writer_run s (failing_round x)) = [] \<and>
         bi_batchSize (writer_run s (failing_round x)) = bi_batchSize s"
  using assms
  by (auto simp: writer_run_def failing_round_def enqueue_def flush_start_def flush_settle_def Let_def)

lemma failing_rounds:
  assumes "0 < bi_batchSize s" "bi_inflight s = []"
  shows "bi_queue (writer_run s (concat (map failing_round xs))) = bi_queue s @ xs \<and>
         bi_inflight (writer_run s (concat (map failing_round xs))) = [] \<and>
         bi_batchSize (writer_run s (concat (map failing_round xs))) = bi_batchSize s"
  using assms
proof (induction xs arbitrary: s)
  case Nil
  then show ?case by (simp add: writer_run_def)
next
  case (Cons x xs)
  let ?s1 = "writer_run s (failing_round x)"
  have step: "bi_queue ?s1 = bi_queue s @ [x]" "bi_inflight ?s1 = []"
    "bi_batchSize ?s1 = bi_batchSize s"
    using failing_round_step [OF Cons.prems] by auto
  have run: "writer_run s (concat (map failing_round (x # xs))) =
             writer_run ?s1 (concat (map failing_round xs))"
    by (simp add: writer_run_def)
  show ?case
    unfolding run using Cons.IH [of ?s1] step Cons.prems by simp
qed
text \<open>
  Claim C7 against the code. With the default batch size 25, let 251 records arrive one
  by one, every flush failing before the next record arrives. Each failed batch is put
  back whole, because the test \<open>queue.length < batchSize * 10\<close> reads the queue after
  the drain, when it is empty: the queue then holds all 251 records, more than the
  bound \<open>10 \<times> 25 = 250\<close>, and nothing was dropped.
\<close>

theorem C7_retry_queue_exceeds_cap:
  "bi_queue (writer_run (new_inserter 25) (concat (map failing_round [1 ..< 252::nat]))) =
     [1 ..< 252] \<and>
   length (bi_queue (writer_run (new_inserter 25) (concat (map failing_round [1 ..< 252::nat])))) =
     251 \<and>
   10 * bi_batchSize (new_inserter 25 :: nat inserter) = 250"
  using failing_rounds [of "new_inserter 25" "[1 ..< 252::nat]"]
  by (simp add: new_inserter_def)

section \<open>Scenario reports\<close>

text \<open>
  An awaited call to the store or to the analyst model returns, throws an error with a
  message, or never settles. Neither endpoint sets a timeout on what it awaits.
\<close>

datatype 'a attempt = Returns 'a | Throws string | Hangs

text \<open>
  A row of \<open>scenario_reports\<close> as the code writes it (\<open>id\<close> and \<open>created_at\<close> are the
  store's); the causal chain and the edges are typed by the endpoint that writes them.
\<close>

record ('c, 'e) report_row =
  rp_query :: string
  rp_trigger_market :: string
  rp_causal_chain :: "'c list"
  rp_narrative :: "string option"
  rp_affected_nodes :: "string list"
  rp_affected_edges :: "'e list"
  rp_status :: string

subsection \<open>The backend endpoint: \<open>POST /api/scenario\<close>, \<open>predictScenario\<close>, \<open>saveReport\<close>\<close>

record shock =
  sh_target_market :: string
  sh_assumed_change :: string
  sh_direction :: string

record narrative_impact =
  ni_order :: nat
  ni_statement :: string

record narratives =
  ns_executive_summary :: "string option"
  ns_market_impacts :: "narrative_impact list option"

record affected_edge =
  ae_source :: string
  ae_target :: string
  ae_relationship_type :: string
  ae_direction :: string
  ae_confidence_score :: real

text \<open>
  The collaborators of one request: the graph load, the two calls to the analyst model
  (each with the parse of its answer), and the insert into \<open>scenario_reports\<close>, which
  answers with the new row's id, or with an error (\<open>Returns None\<close>, nothing written).
\<close>

record scenario_env =
  env_loadMarketGraph :: "(relationship list \<times> market list) attempt"
  env_parseScenario :: "string \<Rightarrow> market list \<Rightarrow> shock attempt"
  env_generateNarratives :: "string \<Rightarrow> shock \<Rightarrow> impact list \<Rightarrow> narratives attempt"
  env_insert :: "(impact, affected_edge) report_row \<Rightarrow> string option attempt"

definition newline :: string where
  "newline = [CHR 0x0A]"

definition edge_arrow :: string where
  "edge_arrow = [CHR 0xE2, CHR 0x86, CHR 0x92]"

text \<open>\<open>String.prototype.trim\<close>, on the ASCII white space.\<close>

definition is_space :: "char \<Rightarrow> bool" where
  "is_space c = (c \<in> {CHR '' '', CHR 0x09, CHR 0x0A, CHR 0x0B, CHR 0x0C, CHR 0x0D})"

definition trim :: "string \<Rightarrow> string" where
  "trim s = rev (dropWhile is_space (rev (dropWhile is_space s)))"

fun join :: "string \<Rightarrow> string list \<Rightarrow> string" where
  "join sep [] = []"
| "join sep [x] = x"
| "join sep (x # y # xs) = x @ sep @ join sep (y # xs)"

text \<open>The edges of one impact's path, added unless their key \<open>source\<rightarrow>target\<close> was seen.\<close>

fun path_edges :: "impact \<Rightarrow> string list \<Rightarrow> string list \<times> affected_edge list \<Rightarrow>
                   string list \<times> affected_edge list" where
  "path_edges imp (u # v # p) (edgeSet, affected_edges) =
     (let key = u @ edge_arrow @ v
      in if key \<in> set edgeSet then path_edges imp (v # p) (edgeSet, affected_edges)
         else path_edges imp (v # p)
                (edgeSet @ [key],
                 affected_edges @
                   [\<lparr>ae_source = u, ae_target = v,
                     ae_relationship_type = i_relationship_type imp,
                     ae_direction = i_direction imp,
                     ae_confidence_score = i_edge_confidence imp\<rparr>]))"
| "path_edges imp _ st = st"

definition generateNarratives ::
  "scenario_env \<Rightarrow> string \<Rightarrow> shock \<Rightarrow> impact list \<Rightarrow> narratives attempt" where
  "generateNarratives env userQuery sh impacts =
     (if impacts = [] then
        Returns \<lparr>ns_executive_summary =
                   Some (''Scenario '' @ dquote @ userQuery @ dquote @ '' targets '' @
                         sh_target_market sh @
                         '', which has no connected markets in the current relationship graph.''),
                 ns_market_impacts = Some []\<rparr>
      else env_generateNarratives env userQuery sh impacts)"

text \<open>The row \<open>saveReport\<close> builds and inserts.\<close>

definition report_of ::
  "string \<Rightarrow> string \<Rightarrow> impact list \<Rightarrow> narratives \<Rightarrow> (impact, affected_edge) report_row" where
  "report_of userQuery targetMarket impacts narr =
     (let affected_nodes = map i_market_key impacts;
          affected_edges = snd (fold (\<lambda>imp st. path_edges imp (i_path imp) st) impacts ([], []));
          impactLines =
            join newline (map ni_statement
                            (case ns_market_impacts narr of Some ms \<Rightarrow> ms | None \<Rightarrow> []));
          narrative =
            trim ((case ns_executive_summary narr of Some s \<Rightarrow> s | None \<Rightarrow> []) @
                  (if impactLines \<noteq> [] then newline @ impactLines else []))
      in \<lparr>rp_query = userQuery,
          rp_trigger_market = targetMarket,
          rp_causal_chain = impacts,
          rp_narrative = Some narrative,
          rp_affected_nodes = affected_nodes,
          rp_affected_edges = affected_edges,
          rp_status = ''completed''\<rparr>)"

text \<open>
  \<open>saveReport\<close>: the id the insert answered with (\<open>None\<close>, with nothing written, when it
  answered with an error) and the table after it.
\<close>

definition saveReport ::
  "scenario_env \<Rightarrow> string \<Rightarrow> string \<Rightarrow> impact list \<Rightarrow> narratives \<Rightarrow>
   (impact, affected_edge) report_row list \<Rightarrow>
   string option attempt \<times> (impact, affected_edge) report_row list" where
  "saveReport env userQuery targetMarket impacts narr table =
     (let row = report_of userQuery targetMarket impacts narr
      in case env_insert env row of
           Returns None \<Rightarrow> (Returns None, table)
         | Returns (Some reportId) \<Rightarrow> (Returns (Some reportId), table @ [row])
         | Throws m \<Rightarrow> (Throws m, table)
         | Hangs \<Rightarrow> (Hangs, table))"

record scenario_result =
  sr_report_id :: "string option"
  sr_user_query :: string
  sr_target_market :: string
  sr_assumed_change :: string
  sr_direction :: string
  sr_impacts :: "impact list"
  sr_narratives :: narratives

definition predictScenario ::
  "scenario_env \<Rightarrow> string \<Rightarrow> (impact, affected_edge) report_row list \<Rightarrow>
   scenario_result attempt \<times> (impact, affected_edge) report_row list" where
  "predictScenario env userQuery table =
     (case env_loadMarketGraph env of
        Throws m \<Rightarrow> (Throws m, table)
      | Hangs \<Rightarrow> (Hangs, table)
      | Returns (relationships, markets) \<Rightarrow>
          (case env_parseScenario env userQuery markets of
             Throws m \<Rightarrow> (Throws m, table)
           | Hangs \<Rightarrow> (Hangs, table)
           | Returns sh \<Rightarrow>
               (let impacts = traverseGraph (sh_target_market sh) (sh_direction sh) relationships
                in (case generateNarratives env userQuery sh impacts of
                      Throws m \<Rightarrow> (Throws m, table)
                    | Hangs \<Rightarrow> (Hangs, table)
                    | Returns narr \<Rightarrow>
                        (case saveReport env userQuery (sh_target_market sh) impacts narr table of
                           (Throws m, table') \<Rightarrow> (Throws m, table')
                         | (Hangs, table') \<Rightarrow> (Hangs, table')
                         | (Returns reportId, table') \<Rightarrow>
                             (Returns \<lparr>sr_report_id = reportId,
                                       sr_user_query = userQuery,
                                       sr_target_market = sh_target_market sh,
                                       sr_assumed_change = sh_assumed_change sh,
                                       sr_direction = sh_direction sh,
                                       sr_impacts = impacts,
                                       sr_narratives = narr\<rparr>, table'))))))"

text \<open>
  The request body after \<open>JSON.parse\<close>, and the \<open>query\<close> property of the parsed object.
\<close>

datatype query_field = NoQuery | NotAString | QueryString string

datatype request_body = NotJson string | Parsed query_field

datatype 'r response_body = ErrorBody string | ReportBody 'r

record 'r http_response =
  hr_status :: nat
  hr_body :: "'r response_body"

definition json :: "nat \<Rightarrow> 'r response_body \<Rightarrow> 'r http_response" where
  "json statusCode body = \<lparr>hr_status = statusCode, hr_body = body\<rparr>"

definition bad_request_message :: string where
  "bad_request_message =
     ''Request body must include a non-empty '' @ dquote @ ''query'' @ dquote @ '' string.''"

text \<open>The handler: the response it sends, \<open>None\<close> while it has sent none, and the table.\<close>

definition post_api_scenario ::
  "scenario_env \<Rightarrow> request_body \<Rightarrow> (impact, affected_edge) report_row list \<Rightarrow>
   scenario_result http_response option \<times> (impact, affected_edge) report_row list" where
  "post_api_scenario env body table =
     (case body of
        NotJson m \<Rightarrow> (Some (json 500 (ErrorBody m)), table)
      | Parsed q \<Rightarrow>
          (case q of
             QueryString query \<Rightarrow>
               if query = [] \<or> trim query = [] then
                 (Some (json 400 (ErrorBody bad_request_message)), table)
               else
                 (case predictScenario env (trim query) table of
                    (Returns report, table') \<Rightarrow> (Some (json 200 (ReportBody report)), table')
                  | (Throws m, table') \<Rightarrow> (Some (json 500 (ErrorBody m)), table')
                  | (Hangs, table') \<Rightarrow> (None, table'))
           | _ \<Rightarrow>
               (Some (json 400 (ErrorBody bad_request_message)), table)))"

subsection \<open>The edge function \<open>scenario\<close>\<close>

text \<open>
  The dashboard's own endpoint. It inserts the row first, with status \<open>processing\<close>, and
  updates it once the analyst model has answered.
\<close>

record chain_item =
  ci_market_key :: string
  ci_order :: nat

record edge_ref =
  er_source :: string
  er_target :: string

record ai_answer =
  ai_trigger_market :: "string option"
  ai_causal_chain :: "chain_item list option"
  ai_narrative :: "string option"
  ai_affected_edges :: "edge_ref list option"

text \<open>
  The collaborators of one request: the insert, the two graph reads, the call to the
  model with the parse of its answer, the update, and the final read of the row (\<open>False\<close>
  when it yields no data). A store call that answers with an error which the function
  throws is \<open>Throws\<close>.
\<close>

record edge_env =
  ee_insert :: "unit attempt"
  ee_graph :: "unit attempt"
  ee_ai :: "ai_answer attempt"
  ee_update :: "unit attempt"
  ee_select :: "bool attempt"

definition missing_query_message :: string where
  "missing_query_message = ''Missing 'query' field''"

text \<open>The row as inserted: the store's defaults apart from the three given columns.\<close>

definition processing_row :: "string \<Rightarrow> (chain_item, edge_ref) report_row" where
  "processing_row query =
     \<lparr>rp_query = query, rp_trigger_market = [], rp_causal_chain = [], rp_narrative = None,
      rp_affected_nodes = [], rp_affected_edges = [], rp_status = ''processing''\<rparr>"

text \<open>The update of the row with the parsed answer.\<close>

definition complete_row ::
  "ai_answer \<Rightarrow> (chain_item, edge_ref) report_row \<Rightarrow> (chain_item, edge_ref) report_row" where
  "complete_row parsed row =
     (let chain = (case ai_causal_chain parsed of Some c \<Rightarrow> c | None \<Rightarrow> []);
          affectedNodes = map ci_market_key chain
      in row\<lparr>rp_trigger_market := (case ai_trigger_market parsed of Some t \<Rightarrow> t | None \<Rightarrow> []),
             rp_causal_chain := chain,
             rp_narrative := Some (case ai_narrative parsed of Some n \<Rightarrow> n | None \<Rightarrow> []),
             rp_affected_nodes := affectedNodes,
             rp_affected_edges := (case ai_affected_edges parsed of Some e \<Rightarrow> e | None \<Rightarrow> []),
             rp_status := ''complete''\<rparr>)"

text \<open>The function after its insert: \<open>reportId\<close> is the position of the new row.\<close>

definition edge_after_insert ::
  "edge_env \<Rightarrow> nat \<Rightarrow> (chain_item, edge_ref) report_row list \<Rightarrow>
   (chain_item, edge_ref) report_row option http_response option \<times>
   (chain_item, edge_ref) report_row list" where
  "edge_after_insert env reportId table1 =
     (case ee_graph env of
        Throws m \<Rightarrow> (Some (json 500 (ErrorBody m)), table1)
      | Hangs \<Rightarrow> (None, table1)
      | Returns u \<Rightarrow>
          (case ee_ai env of
             Throws m \<Rightarrow> (Some (json 500 (ErrorBody m)), table1)
           | Hangs \<Rightarrow> (None, table1)
           | Returns parsed \<Rightarrow>
               (case ee_update env of
                  Throws m \<Rightarrow> (Some (json 500 (ErrorBody m)), table1)
                | Hangs \<Rightarrow> (None, table1)
                | Returns v \<Rightarrow>
                    (let table2 = table1[reportId := complete_row parsed (table1 ! reportId)]
                     in (case ee_select env of
                           Throws m \<Rightarrow> (Some (json 500 (ErrorBody m)), table2)
                         | Hangs \<Rightarrow> (None, table2)
                         | Returns found \<Rightarrow>
                             (Some (json 200 (ReportBody (if found then Some (table2 ! reportId)
                                                          else None))),
                              table2))))))"

definition edge_scenario ::
  "edge_env \<Rightarrow> request_body \<Rightarrow> (chain_item, edge_ref) report_row list \<Rightarrow>
   (chain_item, edge_ref) report_row option http_response option \<times>
   (chain_item, edge_ref) report_row list" where
  "edge_scenario env body table =
     (case body of
        NotJson m \<Rightarrow> (Some (json 500 (ErrorBody m)), table)
      | Parsed NoQuery \<Rightarrow> (Some (json 400 (ErrorBody missing_query_message)), table)
      | Parsed NotAString \<Rightarrow> (Some (json 400 (ErrorBody missing_query_message)), table)
      | Parsed (QueryString query) \<Rightarrow>
          (if query = [] then (Some (json 400 (ErrorBody missing_query_message)), table)
           else (case ee_insert env of
                   Throws m \<Rightarrow> (Some (json 500 (ErrorBody m)), table)
                 | Hangs \<Rightarrow> (None, table)
                 | Returns u \<Rightarrow>
                     edge_after_insert env (length table) (table @ [processing_row query]))))"

subsection \<open>The edges of a backend report\<close>

text \<open>
  \<open>affected_edges\<close> as the code comments describe it: the hops of the impacts' paths, each
  once (by its key \<open>source\<rightarrow>target\<close>), with the attributes of the impact that brought it.
\<close>

definition edge_key :: "affected_edge \<Rightarrow> string" where
  "edge_key e = ae_source e @ edge_arrow @ ae_target e"

definition edge_from :: "impact \<Rightarrow> affected_edge \<Rightarrow> bool" where
  "edge_from imp e =
     ((ae_source e, ae_target e) \<in> set (consecutive_pairs (i_path imp)) \<and>
      ae_relationship_type e = i_relationship_type imp \<and>
      ae_direction e = i_direction imp \<and>
      ae_confidence_score e = i_edge_confidence imp)"

definition hop_keys :: "string list \<Rightarrow> string set" where
  "hop_keys p = (\<lambda>h. fst h @ edge_arrow @ snd h) ` set (consecutive_pairs p)"

definition edges_populated :: "impact list \<Rightarrow> affected_edge list \<Rightarrow> bool" where
  "edges_populated impacts edges =
     (distinct (map edge_key edges) \<and>
      set (map edge_key edges) = (\<Union>imp\<in>set impacts. hop_keys (i_path imp)) \<and>
      (\<forall>e\<in>set edges. \<exists>imp\<in>set impacts. edge_from imp e))"

definition edges_state :: "impact set \<Rightarrow> string list \<times> affected_edge list \<Rightarrow> bool" where
  "edges_state I st =
     (fst st = map edge_key (snd st) \<and> distinct (fst st) \<and>
      (\<forall>e\<in>set (snd st). \<exists>j\<in>I. edge_from j e))"

lemma path_edges_inv:
  assumes "edges_state I st" and "imp \<in> I"
    and "set (consecutive_pairs p) \<subseteq> set (consecutive_pairs (i_path imp))"
  shows "edges_state I (path_edges imp p st) \<and>
         set (fst (path_edges imp p st)) = set (fst st) \<union> hop_keys p"
  using assms
proof (induction imp p st rule: path_edges.induct)
  case (1 imp u v p edgeSet affected_edges)
  let ?key = "u @ edge_arrow @ v"
  have sub: "set (consecutive_pairs (v # p)) \<subseteq> set (consecutive_pairs (i_path imp))"
    using "1.prems"(3) by auto
  have uv: "(u, v) \<in> set (consecutive_pairs (i_path imp))"
    using "1.prems"(3) by auto
  have keys: "hop_keys (u # v # p) = insert ?key (hop_keys (v # p))"
    by (simp add: hop_keys_def)
  show ?case
  proof (cases "?key \<in> set edgeSet")
    case True
    then show ?thesis
      using "1.IH"(1) [OF refl True "1.prems"(1,2) sub] keys by auto
  next
    case False
    let ?e = "\<lparr>ae_source = u, ae_target = v, ae_relationship_type = i_relationship_type imp,
               ae_direction = i_direction imp, ae_confidence_score = i_edge_confidence imp\<rparr>"
    have st: "edges_state I (edgeSet @ [?key], affected_edges @ [?e])"
      using "1.prems"(1,2) False uv
      by (auto simp: edges_state_def edge_key_def edge_from_def)
    show ?thesis
      using "1.IH"(2) [OF refl False st "1.prems"(2) sub] False keys by auto
  qed
qed (simp_all add: hop_keys_def)

lemma fold_path_edges_inv:
  assumes "edges_state I st" and "set impacts \<subseteq> I"
  shows "edges_state I (fold (\<lambda>imp st. path_edges imp (i_path imp) st) impacts st) \<and>
         set (fst (fold (\<lambda>imp st. path_edges imp (i_path imp) st) impacts st)) =
           set (fst st) \<union> (\<Union>imp\<in>set impacts. hop_keys (i_path imp))"
  using assms
proof (induction impacts arbitrary: st)
  case Nil
  then show ?case by simp
next
  case (Cons imp impacts)
  have "imp \<in> I" using Cons.prems(2) by simp
  then have step: "edges_state I (path_edges imp (i_path imp) st) \<and>
         set (fst (path_edges imp (i_path imp) st)) = set (fst st) \<union> hop_keys (i_path imp)"
    using Cons.prems(1) by (intro path_edges_inv) auto
  have "set impacts \<subseteq> I" using Cons.prems(2) by simp
  then show ?case
    using Cons.IH [of "path_edges imp (i_path imp) st"] step by auto
qed

lemma report_edges_populated:
  "edges_populated impacts
     (snd (fold (\<lambda>imp st. path_edges imp (i_path imp) st) impacts ([], [])))"
proof -
  have "edges_state (set impacts) ([], [])"
    by (simp add: edges_state_def)
  then show ?thesis
    using fold_path_edges_inv [of "set impacts" "([], [])" impacts]
    by (auto simp: edges_populated_def edges_state_def)
qed

subsection \<open>Lifecycle of a report row\<close>

text \<open>Every call the endpoint may await settles.\<close>

definition backend_settles :: "scenario_env \<Rightarrow> bool" where
  "backend_settles env =
     (env_loadMarketGraph env \<noteq> Hangs \<and>
      (\<forall>q ms. env_parseScenario env q ms \<noteq> Hangs) \<and>
      (\<forall>q sh imps. env_generateNarratives env q sh imps \<noteq> Hangs) \<and>
      (\<forall>row. env_insert env row \<noteq> Hangs))"

definition edge_settles :: "edge_env \<Rightarrow> bool" where
  "edge_settles env =
     (ee_insert env \<noteq> Hangs \<and> ee_graph env \<noteq> Hangs \<and> ee_ai env \<noteq> Hangs \<and>
      ee_update env \<noteq> Hangs \<and> ee_select env \<noteq> Hangs)"

text \<open>
  The narrative of a backend report: the executive summary, then the impact statements
  one per line, trimmed.
\<close>

definition narrative_text :: "narratives \<Rightarrow> string" where
  "narrative_text narr =
     trim ((case ns_executive_summary narr of Some s \<Rightarrow> s | None \<Rightarrow> []) @
           (case ns_market_impacts narr of
              None \<Rightarrow> []
            | Some ms \<Rightarrow> if join newline (map ni_statement ms) = [] then []
                         else newline @ join newline (map ni_statement ms)))"

text \<open>The row of a backend report with all its fields populated from the scenario.\<close>

definition backend_row_populated ::
  "scenario_result \<Rightarrow> (impact, affected_edge) report_row \<Rightarrow> bool" where
  "backend_row_populated report row =
     (rp_query row = sr_user_query report \<and>
      rp_trigger_market row = sr_target_market report \<and>
      rp_causal_chain row = sr_impacts report \<and>
      rp_narrative row = Some (narrative_text (sr_narratives report)) \<and>
      rp_affected_nodes row = map i_market_key (sr_impacts report) \<and>
      edges_populated (sr_impacts report) (rp_affected_edges row) \<and>
      rp_status row \<noteq> ''pending'' \<and> rp_status row \<noteq> ''failed'')"

text \<open>The row of the edge function at request time, and once the model has answered.\<close>

definition row_at_request :: "string \<Rightarrow> (chain_item, edge_ref) report_row" where
  "row_at_request query =
     \<lparr>rp_query = query, rp_trigger_market = [], rp_causal_chain = [], rp_narrative = None,
      rp_affected_nodes = [], rp_affected_edges = [], rp_status = ''processing''\<rparr>"

definition row_completed :: "string \<Rightarrow> ai_answer \<Rightarrow> (chain_item, edge_ref) report_row" where
  "row_completed query parsed =
     \<lparr>rp_query = query,
      rp_trigger_market = (case ai_trigger_market parsed of Some t \<Rightarrow> t | None \<Rightarrow> []),
      rp_causal_chain = (case ai_causal_chain parsed of Some c \<Rightarrow> c | None \<Rightarrow> []),
      rp_narrative = Some (case ai_narrative parsed of Some n \<Rightarrow> n | None \<Rightarrow> []),
      rp_affected_nodes =
        map ci_market_key (case ai_causal_chain parsed of Some c \<Rightarrow> c | None \<Rightarrow> []),
      rp_affected_edges = (case ai_affected_edges parsed of Some e \<Rightarrow> e | None \<Rightarrow> []),
      rp_status = ''complete''\<rparr>"

lemma report_of_populated:
  "backend_row_populated report
     (report_of (sr_user_query report) (sr_target_market report) (sr_impacts report)
        (sr_narratives report))"
  using report_edges_populated [of "sr_impacts report"]
  by (simp add: backend_row_populated_def report_of_def Let_def narrative_text_def
        split: option.splits)

lemma generateNarratives_Hangs:
  "generateNarratives env q sh impacts = Hangs \<Longrightarrow> \<not> backend_settles env"
  by (auto simp: generateNarratives_def backend_settles_def split: if_splits)

lemma saveReport_cases:
  assumes "saveReport env q t impacts narr table = (res, table')"
  shows "(\<exists>m. res = Throws m \<and> table' = table) \<or>
         (res = Hangs \<and> table' = table \<and> \<not> backend_settles env) \<or>
         (res = Returns None \<and> table' = table) \<or>
         (\<exists>reportId. res = Returns (Some reportId) \<and> table' = table @ [report_of q t impacts narr])"
proof (cases "env_insert env (report_of q t impacts narr)")
  case (Returns r)
  show ?thesis
  proof (cases r)
    case None
    have "saveReport env q t impacts narr table = (Returns None, table)"
      by (simp add: saveReport_def Let_def Returns None)
    then have "res = Returns None" "table' = table" using assms by simp_all
    then show ?thesis by simp
  next
    case (Some reportId)
    have "saveReport env q t impacts narr table =
            (Returns (Some reportId), table @ [report_of q t impacts narr])"
      by (simp add: saveReport_def Let_def Returns Some)
    then have "res = Returns (Some reportId)" "table' = table @ [report_of q t impacts narr]"
      using assms by simp_all
    then show ?thesis by simp
  qed
next
  case (Throws m)
  have "saveReport env q t impacts narr table = (Throws m, table)"
    by (simp add: saveReport_def Let_def Throws)
  then have "res = Throws m" "table' = table" using assms by simp_all
  then show ?thesis by simp
next
  case Hangs
  then have n: "\<not> backend_settles env" by (auto simp: backend_settles_def)
  have "saveReport env q t impacts narr table = (Hangs, table)"
    by (simp add: saveReport_def Let_def Hangs)
  then have "res = Hangs" "table' = table" using assms by simp_all
  then show ?thesis using n by simp
qed

lemma predictScenario_cases:
  assumes "predictScenario env q table = (res, table')"
  shows "(\<exists>m. res = Throws m \<and> table' = table) \<or>
         (res = Hangs \<and> table' = table \<and> \<not> backend_settles env) \<or>
         (\<exists>report. res = Returns report \<and> sr_user_query report = q \<and>
            ((sr_report_id report = None \<and> table' = table) \<or>
             (sr_report_id report \<noteq> None \<and>
              table' = table @ [report_of q (sr_target_market report) (sr_impacts report)
                                  (sr_narratives report)])))"
proof (cases "env_loadMarketGraph env")
  case (Throws m)
  then show ?thesis using assms by (auto simp: predictScenario_def)
next
  case Hangs
  then show ?thesis using assms by (auto simp: predictScenario_def backend_settles_def)
next
  case (Returns g)
  obtain relationships markets where g: "g = (relationships, markets)" by (cases g)
  show ?thesis
  proof (cases "env_parseScenario env q markets")
    case (Throws m)
    then show ?thesis using assms Returns g by (auto simp: predictScenario_def)
  next
    case Hangs
    then have "\<not> backend_settles env" by (auto simp: backend_settles_def)
    then show ?thesis using assms Returns g Hangs by (auto simp: predictScenario_def)
  next
    case sh: (Returns sh)
    let ?impacts = "traverseGraph (sh_target_market sh) (sh_direction sh) relationships"
    show ?thesis
    proof (cases "generateNarratives env q sh ?impacts")
      case (Throws m)
      then show ?thesis using assms Returns g sh by (auto simp: predictScenario_def Let_def)
    next
      case Hangs
      then have "\<not> backend_settles env" by (rule generateNarratives_Hangs)
      then show ?thesis using assms Returns g sh Hangs by (auto simp: predictScenario_def Let_def)
    next
      case narr: (Returns narr)
      obtain sres t1 where s: "saveReport env q (sh_target_market sh) ?impacts narr table = (sres, t1)"
        by (cases "saveReport env q (sh_target_market sh) ?impacts narr table") auto
      from saveReport_cases [OF s] show ?thesis
        using assms Returns g sh narr s
        by (elim disjE exE conjE) (auto simp: predictScenario_def Let_def)
    qed
  qed
qed

lemma post_api_scenario_cases:
  assumes "post_api_scenario env body table = (resp, table')"
  shows "(\<exists>m. resp = Some (json 400 (ErrorBody m)) \<and> table' = table) \<or>
         (\<exists>m. resp = Some (json 500 (ErrorBody m)) \<and> table' = table) \<or>
         (resp = None \<and> table' = table \<and> \<not> backend_settles env) \<or>
         (\<exists>report. resp = Some (json 200 (ReportBody report)) \<and>
            ((sr_report_id report = None \<and> table' = table) \<or>
             (sr_report_id report \<noteq> None \<and>
              table' = table @ [report_of (sr_user_query report) (sr_target_market report)
                                  (sr_impacts report) (sr_narratives report)])))"
proof (cases body)
  case (NotJson m)
  with assms show ?thesis by (auto simp: post_api_scenario_def)
next
  case (Parsed q)
  show ?thesis
  proof (cases q)
    case NoQuery
    with assms Parsed show ?thesis by (auto simp: post_api_scenario_def)
  next
    case NotAString
    with assms Parsed show ?thesis by (auto simp: post_api_scenario_def)
  next
    case (QueryString query)
    show ?thesis
    proof (cases "query = [] \<or> trim query = []")
      case True
      with assms Parsed QueryString show ?thesis by (auto simp: post_api_scenario_def)
    next
      case False
      obtain res t1 where p: "predictScenario env (trim query) table = (res, t1)"
        by (cases "predictScenario env (trim query) table") auto
      from predictScenario_cases [OF p] show ?thesis
        using assms Parsed QueryString False p
        by (elim disjE exE conjE) (auto simp: post_api_scenario_def)
    qed
  qed
qed

lemma edge_rows:
  "processing_row query = row_at_request query"
  "complete_row parsed (row_at_request query) = row_completed query parsed"
  by (simp_all add: processing_row_def row_at_request_def complete_row_def row_completed_def Let_def)

lemma edge_after_insert_cases:
  assumes "edge_after_insert env (length table) (table @ [processing_row query]) = (resp, table')"
  shows "(\<exists>m. resp = Some (json 500 (ErrorBody m)) \<and> table' = table @ [row_at_request query]) \<or>
         (resp = None \<and> \<not> edge_settles env \<and>
            (table' = table @ [row_at_request query] \<or>
             (\<exists>parsed. ee_ai env = Returns parsed \<and> table' = table @ [row_completed query parsed]))) \<or>
         (\<exists>m parsed. resp = Some (json 500 (ErrorBody m)) \<and> ee_select env = Throws m \<and>
            ee_ai env = Returns parsed \<and> table' = table @ [row_completed query parsed]) \<or>
         (\<exists>parsed r. resp = Some (json 200 (ReportBody r)) \<and> ee_ai env = Returns parsed \<and>
            table' = table @ [row_completed query parsed] \<and>
            (r = None \<or> r = Some (row_completed query parsed)))"
proof (cases "ee_graph env")
  case (Throws m)
  then show ?thesis using assms by (auto simp: edge_after_insert_def edge_rows)
next
  case Hangs
  then show ?thesis using assms by (auto simp: edge_after_insert_def edge_rows edge_settles_def)
next
  case g: (Returns u)
  show ?thesis
  proof (cases "ee_ai env")
    case (Throws m)
    then show ?thesis using assms g by (auto simp: edge_after_insert_def edge_rows)
  next
    case Hangs
    then show ?thesis using assms g by (auto simp: edge_after_insert_def edge_rows edge_settles_def)
  next
    case a: (Returns parsed)
    show ?thesis
    proof (cases "ee_update env")
      case (Throws m)
      then show ?thesis using assms g a by (auto simp: edge_after_insert_def edge_rows)
    next
      case Hangs
      then show ?thesis using assms g a by (auto simp: edge_after_insert_def edge_rows edge_settles_def)
    next
      case up: (Returns v)
      have t2: "(table @ [row_at_request query])
                  [length table := complete_row parsed ((table @ [row_at_request query]) ! length table)] =
                table @ [row_completed query parsed]"
        by (simp add: edge_rows)
      show ?thesis
      proof (cases "ee_select env")
        case (Throws m)
        have "edge_after_insert env (length table) (table @ [processing_row query]) =
                (Some (json 500 (ErrorBody m)), table @ [row_completed query parsed])"
          by (simp add: edge_after_insert_def g a up Throws edge_rows Let_def)
        then have "resp = Some (json 500 (ErrorBody m))" "table' = table @ [row_completed query parsed]"
          using assms by simp_all
        then show ?thesis using Throws a by blast
      next
        case Hangs
        have "edge_after_insert env (length table) (table @ [processing_row query]) =
                (None, table @ [row_completed query parsed])"
          by (simp add: edge_after_insert_def g a up Hangs edge_rows Let_def)
        then have "resp = None" "table' = table @ [row_completed query parsed]"
          using assms by simp_all
        moreover have "\<not> edge_settles env" using Hangs by (simp add: edge_settles_def)
        ultimately show ?thesis using a by blast
      next
        case (Returns found)
        have "edge_after_insert env (length table) (table @ [processing_row query]) =
                (Some (json 200 (ReportBody (if found then Some (row_completed query parsed) else None))),
                 table @ [row_completed query parsed])"
          by (simp add: edge_after_insert_def g a up Returns edge_rows Let_def)
        then have "resp = Some (json 200 (ReportBody (if found then Some (row_completed query parsed) else None)))"
          "table' = table @ [row_completed query parsed]"
          using assms by simp_all
        then show ?thesis using a by (cases found) auto
      qed
    qed
  qed
qed

lemma edge_scenario_cases:
  assumes "edge_scenario env body table = (resp, table')"
  shows "(\<exists>m. resp = Some (json 400 (ErrorBody m)) \<and> table' = table) \<or>
         (\<exists>m. resp = Some (json 500 (ErrorBody m)) \<and> table' = table) \<or>
         (resp = None \<and> table' = table \<and> \<not> edge_settles env) \<or>
         (\<exists>query. body = Parsed (QueryString query) \<and>
            ((\<exists>m. resp = Some (json 500 (ErrorBody m)) \<and> table' = table @ [row_at_request query]) \<or>
             (resp = None \<and> \<not> edge_settles env \<and>
                (table' = table @ [row_at_request query] \<or>
                 (\<exists>parsed. ee_ai env = Returns parsed \<and>
                    table' = table @ [row_completed query parsed]))) \<or>
             (\<exists>m parsed. resp = Some (json 500 (ErrorBody m)) \<and> ee_select env = Throws m \<and>
                ee_ai env = Returns parsed \<and> table' = table @ [row_completed query parsed]) \<or>
             (\<exists>parsed r. resp = Some (json 200 (ReportBody r)) \<and> ee_ai env = Returns parsed \<and>
                table' = table @ [row_completed query parsed] \<and>
                (r = None \<or> r = Some (row_completed query parsed)))))"
proof (cases body)
  case (NotJson m)
  with assms show ?thesis by (auto simp: edge_scenario_def)
next
  case (Parsed q)
  show ?thesis
  proof (cases q)
    case NoQuery
    with assms Parsed show ?thesis by (auto simp: edge_scenario_def)
  next
    case NotAString
    with assms Parsed show ?thesis by (auto simp: edge_scenario_def)
  next
    case (QueryString query)
    show ?thesis
    proof (cases "query = []")
      case True
      with assms Parsed QueryString show ?thesis by (auto simp: edge_scenario_def)
    next
      case False
      show ?thesis
      proof (cases "ee_insert env")
        case (Throws m)
        with assms Parsed QueryString False show ?thesis by (auto simp: edge_scenario_def)
      next
        case Hangs
        with assms Parsed QueryString False show ?thesis
          by (auto simp: edge_scenario_def edge_settles_def)
      next
        case (Returns u)
        with assms Parsed QueryString False
        have "edge_after_insert env (length table) (table @ [processing_row query]) = (resp, table')"
          by (simp add: edge_scenario_def)
        from edge_after_insert_cases [OF this] Parsed QueryString show ?thesis
          by blast
      qed
    qed
  qed
qed

text \<open>Every call the endpoint may await returns, the insert with an id.\<close>

definition backend_succeeds :: "scenario_env \<Rightarrow> bool" where
  "backend_succeeds env =
     ((\<exists>g. env_loadMarketGraph env = Returns g) \<and>
      (\<forall>q ms. \<exists>sh. env_parseScenario env q ms = Returns sh) \<and>
      (\<forall>q sh imps. \<exists>narr. env_generateNarratives env q sh imps = Returns narr) \<and>
      (\<forall>row. \<exists>reportId. env_insert env row = Returns (Some reportId)))"

lemma backend_success:
  assumes "backend_succeeds env" and "trim query \<noteq> []"
  shows "\<exists>r report row.
           post_api_scenario env (Parsed (QueryString query)) table = (Some r, table @ [row]) \<and>
           hr_status r = 200 \<and> hr_body r = ReportBody report \<and>
           sr_user_query report = trim query \<and> backend_row_populated report row"
proof -
  let ?q = "trim query"
  obtain relationships markets where g: "env_loadMarketGraph env = Returns (relationships, markets)"
    using assms(1) by (auto simp: backend_succeeds_def)
  obtain sh where sh: "env_parseScenario env ?q markets = Returns sh"
    using assms(1) unfolding backend_succeeds_def by blast
  let ?impacts = "traverseGraph (sh_target_market sh) (sh_direction sh) relationships"
  obtain narr where narr: "generateNarratives env ?q sh ?impacts = Returns narr"
  proof (cases "?impacts = []")
    case True
    then show ?thesis using that by (simp add: generateNarratives_def)
  next
    case False
    obtain n where "env_generateNarratives env ?q sh ?impacts = Returns n"
      using assms(1) unfolding backend_succeeds_def by blast
    then show ?thesis using that False by (simp add: generateNarratives_def)
  qed
  let ?row = "report_of ?q (sh_target_market sh) ?impacts narr"
  obtain reportId where ins: "env_insert env ?row = Returns (Some reportId)"
    using assms(1) unfolding backend_succeeds_def by blast
  let ?report = "\<lparr>sr_report_id = Some reportId, sr_user_query = ?q,
                   sr_target_market = sh_target_market sh,
                   sr_assumed_change = sh_assumed_change sh, sr_direction = sh_direction sh,
                   sr_impacts = ?impacts, sr_narratives = narr\<rparr>"
  have save: "saveReport env ?q (sh_target_market sh) ?impacts narr table =
                (Returns (Some reportId), table @ [?row])"
    by (simp add: saveReport_def Let_def ins)
  have "predictScenario env ?q table = (Returns ?report, table @ [?row])"
    by (simp add: predictScenario_def g sh narr save Let_def)
  moreover have "query \<noteq> []" using assms(2) by (auto simp: trim_def)
  ultimately have "post_api_scenario env (Parsed (QueryString query)) table =
                     (Some (json 200 (ReportBody ?report)), table @ [?row])"
    using assms(2) by (simp add: post_api_scenario_def)
  moreover have "backend_row_populated ?report ?row"
    using report_of_populated [of ?report] by simp
  ultimately show ?thesis
    by (auto simp: json_def)
qed

lemma backend_parse_failure:
  assumes "env_loadMarketGraph env = Returns (relationships, markets)"
    and "env_parseScenario env (trim query) markets = Throws m" and "trim query \<noteq> []"
  shows "post_api_scenario env (Parsed (QueryString query)) table =
           (Some (json 500 (ErrorBody m)), table)"
proof -
  have "query \<noteq> []" using assms(3) by (auto simp: trim_def)
  then show ?thesis
    using assms by (simp add: post_api_scenario_def predictScenario_def)
qed

lemma edge_success:
  assumes "ee_insert env = Returns ()" "ee_graph env = Returns ()" "ee_ai env = Returns parsed"
    "ee_update env = Returns ()" "ee_select env = Returns found" "query \<noteq> []"
  shows "edge_scenario env (Parsed (QueryString query)) table =
           (Some (json 200 (ReportBody (if found then Some (row_completed query parsed) else None))),
            table @ [row_completed query parsed])"
  using assms by (simp add: edge_scenario_def edge_after_insert_def edge_rows Let_def)

lemma edge_failure:
  assumes "ee_insert env = Returns ()"
    and "ee_graph env = Throws m \<or>
         (ee_graph env = Returns () \<and>
          (ee_ai env = Throws m \<or> ((\<exists>parsed. ee_ai env = Returns parsed) \<and> ee_update env = Throws m)))"
    and "query \<noteq> []"
  shows "edge_scenario env (Parsed (QueryString query)) table =
           (Some (json 500 (ErrorBody m)), table @ [row_at_request query])"
  using assms by (auto simp: edge_scenario_def edge_after_insert_def edge_rows)

subsection \<open>Claim C9\<close>

definition failing_env :: scenario_env where
  "failing_env =
     \<lparr>env_loadMarketGraph = Returns ([], []),
      env_parseScenario = (\<lambda>q ms. Throws ''Failed to parse AI response as JSON.''),
      env_generateNarratives = (\<lambda>q sh imps. Throws ''not reached''),
      env_insert = (\<lambda>row. Returns (Some ''id-1''))\<rparr>"

definition failing_edge_env :: edge_env where
  "failing_edge_env =
     \<lparr>ee_insert = Returns (), ee_graph = Returns (),
      ee_ai = Throws ''Failed to parse AI response as JSON'',
      ee_update = Returns (), ee_select = Returns True\<rparr>"

text \<open>The analyst model never answers.\<close>

definition hanging_env :: scenario_env where
  "hanging_env =
     \<lparr>env_loadMarketGraph = Returns ([], []),
      env_parseScenario = (\<lambda>q ms. Hangs),
      env_generateNarratives = (\<lambda>q sh imps. Hangs),
      env_insert = (\<lambda>row. Returns (Some ''id-1''))\<rparr>"

definition hanging_edge_env :: edge_env where
  "hanging_edge_env =
     \<lparr>ee_insert = Returns (), ee_graph = Returns (), ee_ai = Hangs,
      ee_update = Returns (), ee_select = Returns True\<rparr>"

text \<open>
  Claim C9, as stated, fails. When the analyst model's answer cannot be parsed, the
  backend endpoint answers 500 with the error message alone and writes no row, and the
  edge function answers the same way and leaves its row, created with status
  \<open>processing\<close>, as it is: no row with status \<open>pending\<close> or \<open>failed\<close> is written, or answered.
  When the analyst model never answers, neither endpoint ever responds.
\<close>

theorem C9_failure_counterexample:
  "post_api_scenario failing_env (Parsed (QueryString ''CPI comes in at 3.2%'')) [] =
     (Some (json 500 (ErrorBody ''Failed to parse AI response as JSON.'')), []) \<and>
   edge_scenario failing_edge_env (Parsed (QueryString ''CPI comes in at 3.2%'')) [] =
     (Some (json 500 (ErrorBody ''Failed to parse AI response as JSON'')),
      [\<lparr>rp_query = ''CPI comes in at 3.2%'', rp_trigger_market = [], rp_causal_chain = [],
        rp_narrative = None, rp_affected_nodes = [], rp_affected_edges = [],
        rp_status = ''processing''\<rparr>]) \<and>
   fst (post_api_scenario hanging_env (Parsed (QueryString ''CPI comes in at 3.2%'')) []) = None \<and>
   fst (edge_scenario hanging_edge_env (Parsed (QueryString ''CPI comes in at 3.2%'')) []) = None"
  by (simp add: post_api_scenario_def predictScenario_def failing_env_def hanging_env_def
        trim_def is_space_def edge_scenario_def edge_after_insert_def failing_edge_env_def
        hanging_edge_env_def processing_row_def)

text \<open>
  Claim C9, amended. No row is written with status \<open>pending\<close> or \<open>failed\<close>. The edge function
  creates its row at request time with status \<open>processing\<close> (\<^const>\<open>row_at_request\<close>) and, once
  the analyst model has answered and the update has gone through, the row is \<open>complete\<close>
  with every field populated from the answer (\<^const>\<open>row_completed\<close>); it answers 200 only
  then. The backend endpoint writes at most one row, only when it answers 200 and the
  insert returned an id, and writes it once, with every field populated from the scenario
  (\<^const>\<open>backend_row_populated\<close>). A request that is answered otherwise gets status 400 or
  500 and a body holding an error message; the backend has then written nothing, and the
  row of the edge function is still as created, unless it was the final read of the
  completed row that threw. A request is answered as soon as every call the endpoint
  awaits settles (\<^const>\<open>backend_settles\<close>, \<^const>\<open>edge_settles\<close>). When every awaited call
  returns, a request with a query is answered 200 and its row is written, populated; when
  a call throws before the row is completed, the answer is 500 with the message thrown.
\<close>

theorem C9_report_lifecycle:
  "(post_api_scenario env body table = (resp, table') \<longrightarrow>
      (backend_settles env \<longrightarrow> resp \<noteq> None) \<and>
      (table' = table \<or>
       (\<exists>row. table' = table @ [row] \<and> rp_status row \<noteq> ''pending'' \<and> rp_status row \<noteq> ''failed'')) \<and>
      (\<forall>r. resp = Some r \<longrightarrow>
         (hr_status r = 200 \<or> hr_status r = 400 \<or> hr_status r = 500) \<and>
         (hr_status r \<noteq> 200 \<longrightarrow> (\<exists>m. hr_body r = ErrorBody m) \<and> table' = table) \<and>
         (hr_status r = 200 \<longrightarrow>
            (\<exists>report. hr_body r = ReportBody report \<and>
               ((sr_report_id report = None \<and> table' = table) \<or>
                (sr_report_id report \<noteq> None \<and>
                 (\<exists>row. table' = table @ [row] \<and> backend_row_populated report row))))))) \<and>
   (edge_scenario eenv ebody etable = (eresp, etable') \<longrightarrow>
      (edge_settles eenv \<longrightarrow> eresp \<noteq> None) \<and>
      (etable' = etable \<or>
       (\<exists>query. ebody = Parsed (QueryString query) \<and>
          (etable' = etable @ [row_at_request query] \<or>
           (\<exists>parsed. ee_ai eenv = Returns parsed \<and>
              etable' = etable @ [row_completed query parsed])))) \<and>
      (\<forall>r. eresp = Some r \<longrightarrow>
         (hr_status r = 200 \<or> hr_status r = 400 \<or> hr_status r = 500) \<and>
         (hr_status r \<noteq> 200 \<longrightarrow>
            (\<exists>m. hr_body r = ErrorBody m) \<and>
            (etable' = etable \<or> (\<exists>query. etable' = etable @ [row_at_request query]) \<or>
             (\<exists>m. ee_select eenv = Throws m))) \<and>
         (hr_status r = 200 \<longrightarrow>
            (\<exists>query parsed. ee_ai eenv = Returns parsed \<and>
               etable' = etable @ [row_completed query parsed] \<and>
               (hr_body r = ReportBody None \<or>
                hr_body r = ReportBody (Some (row_completed query parsed))))))) \<and>
   (backend_succeeds env \<and> trim query \<noteq> [] \<longrightarrow>
      (\<exists>r report row.
         post_api_scenario env (Parsed (QueryString query)) table = (Some r, table @ [row]) \<and>
         hr_status r = 200 \<and> hr_body r = ReportBody report \<and>
         sr_user_query report = trim query \<and> backend_row_populated report row)) \<and>
   (env_loadMarketGraph env = Returns (relationships, markets) \<and>
    env_parseScenario env (trim query) markets = Throws m \<and> trim query \<noteq> [] \<longrightarrow>
      post_api_scenario env (Parsed (QueryString query)) table =
        (Some (json 500 (ErrorBody m)), table)) \<and>
   (ee_insert eenv = Returns () \<and> ee_graph eenv = Returns () \<and> ee_ai eenv = Returns answer \<and>
    ee_update eenv = Returns () \<and> ee_select eenv = Returns found \<and> q \<noteq> [] \<longrightarrow>
      edge_scenario eenv (Parsed (QueryString q)) etable =
        (Some (json 200 (ReportBody (if found then Some (row_completed q answer) else None))),
         etable @ [row_completed q answer])) \<and>
   (ee_insert eenv = Returns () \<and>
    (ee_graph eenv = Throws m \<or>
     (ee_graph eenv = Returns () \<and>
      (ee_ai eenv = Throws m \<or>
       ((\<exists>parsed. ee_ai eenv = Returns parsed) \<and> ee_update eenv = Throws m)))) \<and>
    q \<noteq> [] \<longrightarrow>
      edge_scenario eenv (Parsed (QueryString q)) etable =
        (Some (json 500 (ErrorBody m)), etable @ [row_at_request q])) \<and>
   rp_status (row_at_request q) = ''processing'' \<and>
   rp_status (row_completed q answer) = ''complete''"
proof -
  have backend: "(backend_settles env \<longrightarrow> resp \<noteq> None) \<and>
      (table' = table \<or>
       (\<exists>row. table' = table @ [row] \<and> rp_status row \<noteq> ''pending'' \<and> rp_status row \<noteq> ''failed'')) \<and>
      (\<forall>r. resp = Some r \<longrightarrow>
         (hr_status r = 200 \<or> hr_status r = 400 \<or> hr_status r = 500) \<and>
         (hr_status r \<noteq> 200 \<longrightarrow> (\<exists>m. hr_body r = ErrorBody m) \<and> table' = table) \<and>
         (hr_status r = 200 \<longrightarrow>
            (\<exists>report. hr_body r = ReportBody report \<and>
               ((sr_report_id report = None \<and> table' = table) \<or>
                (sr_report_id report \<noteq> None \<and>
                 (\<exists>row. table' = table @ [row] \<and> backend_row_populated report row))))))"
    if "post_api_scenario env body table = (resp, table')"
    using post_api_scenario_cases [OF that]
  proof (elim disjE exE conjE)
    fix m assume "resp = Some (json 400 (ErrorBody m))" "table' = table"
    then show ?thesis by (simp add: json_def)
  next
    fix m assume "resp = Some (json 500 (ErrorBody m))" "table' = table"
    then show ?thesis by (simp add: json_def)
  next
    assume "resp = None" "table' = table" "\<not> backend_settles env"
    then show ?thesis by simp
  next
    fix report
    assume "resp = Some (json 200 (ReportBody report))" "sr_report_id report = None" "table' = table"
    then show ?thesis by (simp add: json_def)
  next
    fix report
    assume r: "resp = Some (json 200 (ReportBody report))" "sr_report_id report \<noteq> None"
      and t: "table' = table @ [report_of (sr_user_query report) (sr_target_market report)
                                  (sr_impacts report) (sr_narratives report)]"
    have pop: "backend_row_populated report (report_of (sr_user_query report)
                 (sr_target_market report) (sr_impacts report) (sr_narratives report))"
      by (rule report_of_populated)
    then have "rp_status (report_of (sr_user_query report) (sr_target_market report)
                 (sr_impacts report) (sr_narratives report)) \<noteq> ''pending'' \<and>
               rp_status (report_of (sr_user_query report) (sr_target_market report)
                 (sr_impacts report) (sr_narratives report)) \<noteq> ''failed''"
      by (simp add: backend_row_populated_def)
    then show ?thesis using r t pop by (simp add: json_def)
  qed
  have edge: "(edge_settles eenv \<longrightarrow> eresp \<noteq> None) \<and>
      (etable' = etable \<or>
       (\<exists>query. ebody = Parsed (QueryString query) \<and>
          (etable' = etable @ [row_at_request query] \<or>
           (\<exists>parsed. ee_ai eenv = Returns parsed \<and>
              etable' = etable @ [row_completed query parsed])))) \<and>
      (\<forall>r. eresp = Some r \<longrightarrow>
         (hr_status r = 200 \<or> hr_status r = 400 \<or> hr_status r = 500) \<and>
         (hr_status r \<noteq> 200 \<longrightarrow>
            (\<exists>m. hr_body r = ErrorBody m) \<and>
            (etable' = etable \<or> (\<exists>query. etable' = etable @ [row_at_request query]) \<or>
             (\<exists>m. ee_select eenv = Throws m))) \<and>
         (hr_status r = 200 \<longrightarrow>
            (\<exists>query parsed. ee_ai eenv = Returns parsed \<and>
               etable' = etable @ [row_completed query parsed] \<and>
               (hr_body r = ReportBody None \<or>
                hr_body r = ReportBody (Some (row_completed query parsed))))))"
    if "edge_scenario eenv ebody etable = (eresp, etable')"
    using edge_scenario_cases [OF that]
  proof (elim disjE exE conjE)
    fix m assume "eresp = Some (json 400 (ErrorBody m))" "etable' = etable"
    then show ?thesis by (auto simp: json_def)
  next
    fix m assume "eresp = Some (json 500 (ErrorBody m))" "etable' = etable"
    then show ?thesis by (auto simp: json_def)
  next
    assume "eresp = None" "etable' = etable" "\<not> edge_settles eenv"
    then show ?thesis by auto
  next
    fix query m
    assume "ebody = Parsed (QueryString query)" "eresp = Some (json 500 (ErrorBody m))"
      "etable' = etable @ [row_at_request query]"
    then show ?thesis by (auto simp: json_def)
  next
    fix query
    assume "ebody = Parsed (QueryString query)" "eresp = None" "\<not> edge_settles eenv"
      "etable' = etable @ [row_at_request query]"
    then show ?thesis by auto
  next
    fix query parsed
    assume "ebody = Parsed (QueryString query)" "eresp = None" "\<not> edge_settles eenv"
      "ee_ai eenv = Returns parsed" "etable' = etable @ [row_completed query parsed]"
    then show ?thesis by auto
  next
    fix query m parsed
    assume "ebody = Parsed (QueryString query)" "eresp = Some (json 500 (ErrorBody m))"
      "ee_select eenv = Throws m" "ee_ai eenv = Returns parsed"
      "etable' = etable @ [row_completed query parsed]"
    then show ?thesis by (auto simp: json_def)
  next
    fix query parsed r
    assume "ebody = Parsed (QueryString query)" "eresp = Some (json 200 (ReportBody r))"
      "ee_ai eenv = Returns parsed" "etable' = etable @ [row_completed query parsed]"
      "r = None"
    then show ?thesis by (auto simp: json_def)
  next
    fix query parsed r
    assume "ebody = Parsed (QueryString query)" "eresp = Some (json 200 (ReportBody r))"
      "ee_ai eenv = Returns parsed" "etable' = etable @ [row_completed query parsed]"
      "r = Some (row_completed query parsed)"
    then show ?thesis by (auto simp: json_def)
  qed
  have status: "rp_status (row_at_request q) = ''processing''"
    "rp_status (row_completed q answer) = ''complete''"
    by (simp_all add: row_at_request_def row_completed_def)
  have paths: "backend_succeeds env \<and> trim query \<noteq> [] \<longrightarrow>
      (\<exists>r report row.
         post_api_scenario env (Parsed (QueryString query)) table = (Some r, table @ [row]) \<and>
         hr_status r = 200 \<and> hr_body r = ReportBody report \<and>
         sr_user_query report = trim query \<and> backend_row_populated report row)"
    "env_loadMarketGraph env = Returns (relationships, markets) \<and>
     env_parseScenario env (trim query) markets = Throws m \<and> trim query \<noteq> [] \<longrightarrow>
      post_api_scenario env (Parsed (QueryString query)) table =
        (Some (json 500 (ErrorBody m)), table)"
    "ee_insert eenv = Returns () \<and> ee_graph eenv = Returns () \<and> ee_ai eenv = Returns answer \<and>
     ee_update eenv = Returns () \<and> ee_select eenv = Returns found \<and> q \<noteq> [] \<longrightarrow>
      edge_scenario eenv (Parsed (QueryString q)) etable =
        (Some (json 200 (ReportBody (if found then Some (row_completed q answer) else None))),
         etable @ [row_completed q answer])"
    "ee_insert eenv = Returns () \<and>
     (ee_graph eenv = Throws m \<or>
      (ee_graph eenv = Returns () \<and>
       (ee_ai eenv = Throws m \<or>
        ((\<exists>parsed. ee_ai eenv = Returns parsed) \<and> ee_update eenv = Throws m)))) \<and>
     q \<noteq> [] \<longrightarrow>
      edge_scenario eenv (Parsed (QueryString q)) etable =
        (Some (json 500 (ErrorBody m)), etable @ [row_at_request q])"
    using backend_success [of env query table]
      backend_parse_failure [of env relationships markets query m table]
      edge_success [of eenv answer found q etable] edge_failure [of eenv m q etable]
    by blast+
  show ?thesis
    using backend edge paths status by blast
qed

definition example_env :: scenario_env where
  "example_env =
     \<lparr>env_loadMarketGraph = Returns (example_graph, []),
      env_parseScenario =
        (\<lambda>q ms. Returns \<lparr>sh_target_market = ''O'', sh_assumed_change = ''rates stay higher'',
                          sh_direction = ''UP''\<rparr>),
      env_generateNarratives =
        (\<lambda>q sh imps. Returns \<lparr>ns_executive_summary = Some ''Summary.'',
                               ns_market_impacts = Some [\<lparr>ni_order = 1, ni_statement = ''If O moves UP...''\<rparr>]\<rparr>),
      env_insert = (\<lambda>row. Returns (Some ''id-1''))\<rparr>"

definition example_answer_ai :: ai_answer where
  "example_answer_ai =
     \<lparr>ai_trigger_market = Some ''O'',
      ai_causal_chain = Some [\<lparr>ci_market_key = ''O'', ci_order = 0\<rparr>, \<lparr>ci_market_key = ''X'', ci_order = 1\<rparr>],
      ai_narrative = Some ''Rates stay higher.'',
      ai_affected_edges = None\<rparr>"

definition example_edge_env :: edge_env where
  "example_edge_env =
     \<lparr>ee_insert = Returns (), ee_graph = Returns (), ee_ai = Returns example_answer_ai,
      ee_update = Returns (), ee_select = Returns True\<rparr>"

lemma example_request:
  "map_option hr_status (fst (post_api_scenario example_env (Parsed (QueryString '' CPI hot '')) [])) = Some 200 \<and>
   map (\<lambda>row. (rp_query row, rp_trigger_market row, rp_affected_nodes row, rp_narrative row,
               map (\<lambda>e. (ae_source e, ae_target e)) (rp_affected_edges row)))
     (snd (post_api_scenario example_env (Parsed (QueryString '' CPI hot '')) [])) =
   [(''CPI hot'', ''O'', [''X'', ''Y''], Some (''Summary.'' @ newline @ ''If O moves UP...''),
     [(''O'', ''X''), (''X'', ''Y'')])]"
  by code_simp

lemma example_edge_request:
  "map_option hr_status (fst (edge_scenario example_edge_env (Parsed (QueryString ''CPI hot'')) [])) = Some 200 \<and>
   map (\<lambda>row. (rp_query row, rp_trigger_market row, rp_affected_nodes row, rp_narrative row,
               rp_affected_edges row, rp_status row))
     (snd (edge_scenario example_edge_env (Parsed (QueryString ''CPI hot'')) [])) =
   [(''CPI hot'', ''O'', [''O'', ''X''], Some ''Rates stay higher.'', [], ''complete'')]"
  by code_simp

theorem C9_report_lifecycle_witness:
  "backend_settles example_env \<and>
   (\<exists>r report row.
      post_api_scenario example_env (Parsed (QueryString '' CPI hot '')) [] = (Some r, [row]) \<and>
      hr_status r = 200 \<and> hr_body r = ReportBody report \<and> backend_row_populated report row \<and>
      rp_affected_nodes row = [''X'', ''Y'']) \<and>
   edge_settles example_edge_env \<and>
   (\<exists>r. edge_scenario example_edge_env (Parsed (QueryString ''CPI hot'')) [] =
           (Some r, [row_completed ''CPI hot'' example_answer_ai]) \<and>
        hr_status r = 200)"
proof -
  let ?p = "post_api_scenario example_env (Parsed (QueryString '' CPI hot '')) []"
  let ?e = "edge_scenario example_edge_env (Parsed (QueryString ''CPI hot'')) []"
  have s: "backend_settles example_env" "edge_settles example_edge_env"
    by (simp_all add: backend_settles_def edge_settles_def example_env_def example_edge_env_def)
  have ai: "ee_ai example_edge_env = Returns example_answer_ai"
    by (simp add: example_edge_env_def)
  obtain resp table' where p: "?p = (resp, table')" by (cases ?p) auto
  obtain eresp etable' where e: "?e = (eresp, etable')" by (cases ?e) auto
  have ps: "map_option hr_status resp = Some 200" "length table' = 1"
    "map rp_affected_nodes table' = [[''X'', ''Y'']]"
    using example_request p by auto
  have es: "map_option hr_status eresp = Some 200" "length etable' = 1"
    "map rp_query etable' = [''CPI hot'']"
    using example_edge_request e by auto
  obtain r where r: "resp = Some r" "hr_status r = 200" using ps(1) by auto
  obtain er where er: "eresp = Some er" "hr_status er = 200" using es(1) by auto
  note lifecycle = C9_report_lifecycle [where env = example_env
      and body = "Parsed (QueryString '' CPI hot '')" and table = "[]" and resp = resp
      and table' = table' and eenv = example_edge_env
      and ebody = "Parsed (QueryString ''CPI hot'')" and etable = "[]" and eresp = eresp
      and etable' = etable']
  note backend = lifecycle [THEN conjunct1, THEN mp, OF p]
  note answered = backend [THEN conjunct2, THEN conjunct2, THEN spec, THEN mp, OF r(1)]
  note ok = answered [THEN conjunct2, THEN conjunct2, THEN mp, OF r(2)]
  from ok obtain report where report: "hr_body r = ReportBody report"
    "(sr_report_id report = None \<and> table' = []) \<or>
     (sr_report_id report \<noteq> None \<and> (\<exists>row. table' = [] @ [row] \<and> backend_row_populated report row))"
    by blast
  then obtain row where row: "table' = [row]" "backend_row_populated report row"
    using ps(2) by auto
  note edge = lifecycle [THEN conjunct2, THEN conjunct1, THEN mp, OF e]
  note eanswered = edge [THEN conjunct2, THEN conjunct2, THEN spec, THEN mp, OF er(1)]
  note eok = eanswered [THEN conjunct2, THEN conjunct2, THEN mp, OF er(2)]
  from eok obtain query parsed where upd: "ee_ai example_edge_env = Returns parsed"
    "etable' = [] @ [row_completed query parsed]"
    by blast
  have "parsed = example_answer_ai" using upd(1) ai by simp
  moreover have "query = ''CPI hot''" using upd(2) es(3) by (simp add: row_completed_def)
  ultimately have erow: "etable' = [row_completed ''CPI hot'' example_answer_ai]"
    using upd(2) by simp
  have "\<exists>r report row. ?p = (Some r, [row]) \<and>
      hr_status r = 200 \<and> hr_body r = ReportBody report \<and> backend_row_populated report row \<and>
      rp_affected_nodes row = [''X'', ''Y'']"
    using p r report(1) row ps(3) by auto
  moreover have "\<exists>r. ?e = (Some r, [row_completed ''CPI hot'' example_answer_ai]) \<and> hr_status r = 200"
    using e er erow by auto
  ultimately show ?thesis
    using s by blast
qed

end
